theory Spec2Isabelle
  imports Complex_Main
begin

section \<open>Python values used by the health checker\<close>

text \<open>
  Strings are \<^typ>\<open>string\<close> (lists of 8-bit characters, the UTF-8 bytes of the Python
  text). Python's unbounded integers are \<^typ>\<open>int\<close>. A Python float that is finite is a
  rational number, so the measured load time is a \<^typ>\<open>rat\<close>: comparison with \<open>3\<close> and the
  \<open>.2f\<close> format depend on the exact value of the float only.
\<close>

subsection \<open>The module constant \<open>CONFIG\<close>\<close>

record config =
  REQUEST_TIMEOUT :: nat
  HEAD_REQUEST_TIMEOUT :: nat
  SSL_EXPIRY_THRESHOLD :: nat
  MAX_LINKS_TO_CHECK :: nat

definition CONFIG :: config where
  "CONFIG = \<lparr> REQUEST_TIMEOUT = 15, HEAD_REQUEST_TIMEOUT = 8,
              SSL_EXPIRY_THRESHOLD = 15, MAX_LINKS_TO_CHECK = 20 \<rparr>"

subsection \<open>\<open>str\<close> of an integer and the \<open>.2f\<close> format\<close>

definition digit_char :: "nat \<Rightarrow> char" where
  "digit_char d = ''0123456789'' ! (d mod 10)"

fun str_nat :: "nat \<Rightarrow> string" where
  "str_nat n = (if n < 10 then [digit_char n]
                else str_nat (n div 10) @ [digit_char (n mod 10)])"

declare str_nat.simps [simp del]

definition str_int :: "int \<Rightarrow> string" where
  "str_int i = (if i < 0 then CHR ''-'' # str_nat (nat (- i)) else str_nat (nat i))"

text \<open>Rounding to the nearest integer, ties to the even one, as the float formatter does.\<close>

definition round_half_even :: "rat \<Rightarrow> int" where
  "round_half_even q =
     (let f = \<lfloor>q\<rfloor>; d = q - of_int f
      in if d < 1 / 2 then f
         else if 1 / 2 < d then f + 1
         else if even f then f else f + 1)"

text \<open>\<open>f"{x:.2f}"\<close>: sign, integer part, a dot and exactly two decimals.\<close>

definition format_2f :: "rat \<Rightarrow> string" where
  "format_2f x =
     (let h = nat (round_half_even (\<bar>x\<bar> * 100))
      in (if x < 0 then ''-'' else '''') @ str_nat (h div 100) @ ''.''
           @ [digit_char (h mod 100 div 10), digit_char (h mod 10)])"

section \<open>Suggestion synthesizer\<close>

text \<open>
  \<open>generate_suggestions(ssl_ok, days_left, broken, mobile_result, load_time)\<close>. The local
  list \<open>suggestions\<close> is threaded through the four \<open>if\<close> statements in source order.
  \<open>days_left\<close> and \<open>load_time\<close> may be \<open>None\<close>; \<open>if load_time and load_time > 3\<close> first tests
  truthiness (\<open>None\<close> and \<open>0.0\<close> are false).
\<close>

type_synonym mobile_result = "bool \<times> string list"

definition generate_suggestions ::
  "bool \<Rightarrow> int option \<Rightarrow> string list \<Rightarrow> mobile_result \<Rightarrow> rat option \<Rightarrow> string list" where
  "generate_suggestions ssl_ok days_left broken mobile_res load_time =
     (let mobile_friendly = fst mobile_res;
          mobile_details = snd mobile_res;
          suggestions0 = [];
          suggestions1 =
            (if \<not> ssl_ok then
               suggestions0 @
                 [''Install a valid SSL certificate using Let's Encrypt or a trusted CA'']
             else if days_left \<noteq> None \<and> the days_left < int (SSL_EXPIRY_THRESHOLD CONFIG) then
               suggestions0 @
                 [''Renew your SSL certificate soon. It expires in '' @ str_int (the days_left)
                    @ '' days'']
             else suggestions0);
          suggestions2 =
            (if broken \<noteq> [] then
               suggestions1 @
                 [''Fix '' @ str_nat (length broken) @ '' broken links on your website'']
             else suggestions1);
          suggestions3 =
            (if \<not> mobile_friendly then
               suggestions2 @
                 [''Improve mobile responsiveness by adding a viewport meta tag'',
                  ''Consider using responsive frameworks like Bootstrap or Tailwind CSS'']
             else suggestions2);
          suggestions4 =
            (if (load_time \<noteq> None \<and> the load_time \<noteq> 0) \<and> 3 < the load_time then
               suggestions3 @
                 [''Optimize page load time (currently '' @ format_2f (the load_time) @ ''s)'',
                  ''Compress images and minify CSS/JavaScript files'',
                  ''Consider using a CDN for static assets'']
             else suggestions3)
      in suggestions4)"

section \<open>Exceptions\<close>

text \<open>
  A raised exception is a value: its class and its message (\<open>str(e)\<close>). The classes are the
  ones the handlers of the program tell apart. \<open>RequestException\<close> stands for
  \<open>requests.exceptions.RequestException\<close> and carries the subclass that was raised;
  \<open>SocketGaierror\<close>, \<open>SocketTimeout\<close> and \<open>SSLError\<close> are \<open>socket.gaierror\<close>,
  \<open>socket.timeout\<close> and \<open>ssl.SSLError\<close>. \<open>KeyboardInterrupt\<close> stands for the exceptions
  that derive from \<open>BaseException\<close> but not from \<open>Exception\<close>: an \<open>except Exception\<close> clause
  does not catch them.
\<close>

datatype request_error = ConnectionError | Timeout | RequestsSSLError | InvalidURL | OtherRequestError

datatype exn_class =
    ValueError
  | KeyError
  | RequestException request_error
  | SocketGaierror
  | SocketTimeout
  | SSLError
  | OtherException
  | KeyboardInterrupt

datatype exn = Exn exn_class string

fun exn_class_of :: "exn \<Rightarrow> exn_class" where
  "exn_class_of (Exn c m) = c"

fun str_exn :: "exn \<Rightarrow> string" where
  "str_exn (Exn c m) = m"

fun is_RequestException :: "exn \<Rightarrow> bool" where
  "is_RequestException (Exn (RequestException k) m) = True"
| "is_RequestException (Exn c m) = False"

fun is_Exception :: "exn \<Rightarrow> bool" where
  "is_Exception (Exn KeyboardInterrupt m) = False"
| "is_Exception (Exn c m) = True"

section \<open>The URL library\<close>

text \<open>
  \<open>urllib.parse\<close> is not part of the program. Its \<open>urlparse(u).netloc\<close> is modelled after
  CPython 3.12: leading C0 control characters and spaces are stripped, tab, CR and LF are
  removed, a scheme is split off, and the network location is what follows \<open>//\<close> up to the
  first of \<open>/\<close>, \<open>?\<close> and \<open>#\<close>. Three parts of the library are parameters, collected in the
  record \<open>urllib\<close>: the validation of a bracketed (IPv6) host, the NFKC check of a
  non-ASCII network location (each gives the message of the \<open>ValueError\<close> it raises, or
  \<open>None\<close>), and \<open>urljoin\<close>.
\<close>

record urllib =
  check_bracketed_host :: "string \<Rightarrow> string option"
  checknetloc_nfkc :: "string \<Rightarrow> string option"
  urljoin :: "string \<Rightarrow> string \<Rightarrow> exn + string"

definition startswith :: "string \<Rightarrow> string \<Rightarrow> bool" where
  "startswith s p = (take (length p) s = p)"

definition is_ascii_alpha :: "char \<Rightarrow> bool" where
  "is_ascii_alpha c =
     (let n = (of_char c :: nat) in (65 \<le> n \<and> n \<le> 90) \<or> (97 \<le> n \<and> n \<le> 122))"

definition is_ascii_digit :: "char \<Rightarrow> bool" where
  "is_ascii_digit c = (let n = (of_char c :: nat) in 48 \<le> n \<and> n \<le> 57)"

definition is_scheme_char :: "char \<Rightarrow> bool" where
  "is_scheme_char c = (is_ascii_alpha c \<or> is_ascii_digit c \<or> c \<in> set ''+-.'')"

definition is_ascii :: "char \<Rightarrow> bool" where
  "is_ascii c = ((of_char c :: nat) < 128)"

definition ascii_lower_char :: "char \<Rightarrow> char" where
  "ascii_lower_char c =
     (let n = (of_char c :: nat) in if 65 \<le> n \<and> n \<le> 90 then char_of (n + 32) else c)"

text \<open>\<open>s.lower()\<close> on the ASCII letters; the bytes of other characters are kept.\<close>

definition lower :: "string \<Rightarrow> string" where
  "lower s = map ascii_lower_char s"

definition lstrip_c0_space :: "string \<Rightarrow> string" where
  "lstrip_c0_space u = dropWhile (\<lambda>c. (of_char c :: nat) \<le> 32) u"

definition remove_unsafe :: "string \<Rightarrow> string" where
  "remove_unsafe u = filter (\<lambda>c. c \<noteq> CHR 0x09 \<and> c \<noteq> CHR 0x0D \<and> c \<noteq> CHR 0x0A) u"

text \<open>The scheme and the rest of the URL, as \<open>urlsplit\<close> separates them.\<close>

definition split_scheme :: "string \<Rightarrow> string \<times> string" where
  "split_scheme u =
     (let pre = takeWhile (\<lambda>c. c \<noteq> CHR '':'') u
      in if CHR '':'' \<in> set u \<and> pre \<noteq> [] \<and> is_ascii_alpha (hd u) \<and> list_all is_scheme_char pre
         then (lower pre, drop (length pre + 1) u)
         else ([], u))"

text \<open>\<open>_splitnetloc(url, 2)\<close>: the text after \<open>//\<close> up to the first delimiter.\<close>

definition splitnetloc :: "string \<Rightarrow> string" where
  "splitnetloc u = takeWhile (\<lambda>c. c \<noteq> CHR ''/'' \<and> c \<noteq> CHR ''?'' \<and> c \<noteq> CHR ''#'') (drop 2 u)"

text \<open>\<open>netloc.partition('[')[2].partition(']')[0]\<close>\<close>

definition bracketed_host :: "string \<Rightarrow> string" where
  "bracketed_host n =
     takeWhile (\<lambda>c. c \<noteq> CHR '']'') (drop 1 (dropWhile (\<lambda>c. c \<noteq> CHR ''['') n))"

definition check_netloc :: "urllib \<Rightarrow> string \<Rightarrow> exn + string" where
  "check_netloc lib n =
     (if (CHR ''['' \<in> set n \<and> CHR '']'' \<notin> set n) \<or> (CHR '']'' \<in> set n \<and> CHR ''['' \<notin> set n)
      then Inl (Exn ValueError ''Invalid IPv6 URL'')
      else case (if CHR ''['' \<in> set n \<and> CHR '']'' \<in> set n
                 then check_bracketed_host lib (bracketed_host n) else None) of
             Some msg \<Rightarrow> Inl (Exn ValueError msg)
           | None \<Rightarrow>
               (case (if n = [] \<or> list_all is_ascii n then None else checknetloc_nfkc lib n) of
                  Some msg \<Rightarrow> Inl (Exn ValueError msg)
                | None \<Rightarrow> Inr n))"

text \<open>\<open>urlparse(u).scheme\<close> and \<open>urlparse(u).netloc\<close>, or the \<open>ValueError\<close> that \<open>urlparse\<close> raises.\<close>

definition urlparse :: "urllib \<Rightarrow> string \<Rightarrow> exn + (string \<times> string)" where
  "urlparse lib u =
     (let u1 = remove_unsafe (lstrip_c0_space u);
          scheme = fst (split_scheme u1);
          rest = snd (split_scheme u1)
      in if take 2 rest = ''//''
         then (case check_netloc lib (splitnetloc rest) of
                 Inl e \<Rightarrow> Inl e
               | Inr n \<Rightarrow> Inr (scheme, n))
         else Inr (scheme, []))"

definition urlparse_netloc :: "urllib \<Rightarrow> string \<Rightarrow> exn + string" where
  "urlparse_netloc lib u = (case urlparse lib u of Inl e \<Rightarrow> Inl e | Inr p \<Rightarrow> Inr (snd p))"

text \<open>
  \<open>urlparse(u).hostname\<close>, from the network location, after CPython 3.12: the text after the
  last \<open>@\<close>, up to the first \<open>:\<close> (or between the brackets of a bracketed host), in
  lower case up to a \<open>%\<close>; \<open>None\<close> when that text is empty.
\<close>

definition url_hostname :: "string \<Rightarrow> string option" where
  "url_hostname netloc =
     (let hostinfo = rev (takeWhile (\<lambda>c. c \<noteq> CHR ''@'') (rev netloc));
          hostname =
            (if CHR ''['' \<in> set hostinfo
             then takeWhile (\<lambda>c. c \<noteq> CHR '']'')
                    (drop 1 (dropWhile (\<lambda>c. c \<noteq> CHR ''['') hostinfo))
             else takeWhile (\<lambda>c. c \<noteq> CHR '':'') hostinfo)
      in if hostname = [] then None
         else Some (lower (takeWhile (\<lambda>c. c \<noteq> CHR ''%'') hostname)
                      @ dropWhile (\<lambda>c. c \<noteq> CHR ''%'') hostname))"

section \<open>URL normalizer\<close>

text \<open>
  \<open>validate_url(url)\<close>. \<open>if not url\<close> is true of the empty string only. A \<open>ValueError\<close> raised
  by \<open>urlparse\<close> itself is not caught and leaves the function as it is.
\<close>

definition validate_url :: "urllib \<Rightarrow> string \<Rightarrow> exn + string" where
  "validate_url lib url =
     (if url = [] then Inl (Exn ValueError ''URL cannot be empty'')
      else
        let url1 = (if \<not> (startswith url ''http://'' \<or> startswith url ''https://'')
                    then ''https://'' @ url else url)
        in case urlparse_netloc lib url1 of
             Inl e \<Rightarrow> Inl e
           | Inr netloc \<Rightarrow>
               if netloc = [] then Inl (Exn ValueError (''Invalid URL: '' @ url1))
               else Inr url1)"

section \<open>The outside world\<close>

text \<open>
  The HTTP client, the TLS socket, the HTML parser and the clocks are outside the program.
  They are the fields of a record \<open>world\<close>. A network operation is answered by the world
  according to the request and to the number of network operations made before it, so that
  the same request may be answered differently at different times; each one is logged in
  the field \<open>events\<close> of the state. Lines written by \<open>print\<close> are collected in \<open>stdout\<close>.
\<close>

datatype http_method = GET | HEAD

record request =
  rq_method :: http_method
  rq_url :: string
  rq_timeout :: nat
  rq_headers :: "(string \<times> string) list"
  rq_allow_redirects :: bool

record response =
  status_code :: int
  resp_headers :: "(string \<times> string) list"
  resp_text :: string

text \<open>
  \<open>response.ok\<close>: \<open>raise_for_status()\<close> raises for a status from 400 to 599.
\<close>

definition resp_ok :: "response \<Rightarrow> bool" where
  "resp_ok r = (\<not> (400 \<le> status_code r \<and> status_code r < 600))"

text \<open>
  What the program reads from a parsed page:
  \<^item> \<open>a_hrefs\<close>: \<open>a_tag['href']\<close> for each tag of \<open>soup.find_all('a', href=True)\<close>, in
    document order;
  \<^item> \<open>viewport_meta\<close>: \<open>soup.find('meta', attrs={'name': 'viewport'})\<close>, \<open>None\<close> when there
    is no such tag, else the \<open>content\<close> attribute of the tag (\<open>None\<close> when it has none);
  \<^item> \<open>style_strings\<close>: \<open>style.string\<close> for each tag of \<open>soup.find_all('style')\<close>;
  \<^item> \<open>stylesheet_hrefs\<close>: the \<open>href\<close> attribute of each tag of
    \<open>soup.find_all('link', rel='stylesheet')\<close>.
\<close>

record soup =
  a_hrefs :: "string list"
  viewport_meta :: "string option option"
  style_strings :: "string option list"
  stylesheet_hrefs :: "string option list"

datatype event = Http request | TlsConnect string nat nat

record io_state =
  events :: "event list"
  stdout :: "string list"

text \<open>
  \<^item> \<open>http_send n rq\<close>: the outcome of the request \<open>rq\<close> made after \<open>n\<close> network operations;
  \<^item> \<open>time_time n\<close>, \<open>utcnow n\<close>: the readings of \<open>time.time()\<close> (seconds) and of
    \<open>datetime.utcnow()\<close> (microseconds) after \<open>n\<close> network operations;
  \<^item> \<open>tls_getpeercert n host port timeout\<close>: \<open>socket.create_connection\<close>, \<open>wrap_socket\<close> and
    \<open>getpeercert()\<close> together: an exception, or the certificate (\<open>None\<close>, or a dictionary);
  \<^item> \<open>strptime\<close>: \<open>datetime.strptime(s, '%b %d %H:%M:%S %Y %Z')\<close> in microseconds;
  \<^item> \<open>html_parser\<close>: \<open>BeautifulSoup(text, 'html.parser')\<close> and the searches on it;
  \<^item> \<open>hash_rank\<close>: the place of a string in the iteration order of a \<open>set\<close>.
\<close>

record world =
  url_lib :: urllib
  http_send :: "nat \<Rightarrow> request \<Rightarrow> exn + response"
  time_time :: "nat \<Rightarrow> rat"
  utcnow :: "nat \<Rightarrow> int"
  tls_getpeercert :: "nat \<Rightarrow> string \<Rightarrow> nat \<Rightarrow> nat \<Rightarrow> exn + (string \<times> string) list option"
  strptime :: "string \<Rightarrow> exn + int"
  html_parser :: "string \<Rightarrow> exn + soup"
  hash_rank :: "string \<Rightarrow> nat"

subsection \<open>Computations with effects and exceptions\<close>

type_synonym 'a io = "io_state \<Rightarrow> (exn + 'a) \<times> io_state"

definition io_return :: "'a \<Rightarrow> 'a io" where
  "io_return x s = (Inr x, s)"

definition io_lift :: "exn + 'a \<Rightarrow> 'a io" where
  "io_lift r s = (r, s)"

definition io_bind :: "'a io \<Rightarrow> ('a \<Rightarrow> 'b io) \<Rightarrow> 'b io" where
  "io_bind m f s = (case m s of (Inl e, s') \<Rightarrow> (Inl e, s') | (Inr x, s') \<Rightarrow> f x s')"

text \<open>
  \<open>try: m except ...\<close>: the handler gives the computation of the first \<open>except\<close> clause that
  matches the exception, or \<open>None\<close> when no clause matches and the exception goes on.
\<close>

definition io_try :: "'a io \<Rightarrow> (exn \<Rightarrow> 'a io option) \<Rightarrow> 'a io" where
  "io_try m handler s =
     (case m s of
        (Inl e, s') \<Rightarrow> (case handler e of Some h \<Rightarrow> h s' | None \<Rightarrow> (Inl e, s'))
      | (Inr x, s') \<Rightarrow> (Inr x, s'))"

definition print :: "string \<Rightarrow> unit io" where
  "print line s = (Inr (), s\<lparr>stdout := stdout s @ [line]\<rparr>)"

fun print_all :: "string list \<Rightarrow> unit io" where
  "print_all [] = io_return ()"
| "print_all (l # ls) = io_bind (print l) (\<lambda>_. print_all ls)"

definition requests_send :: "world \<Rightarrow> request \<Rightarrow> response io" where
  "requests_send w rq s = (http_send w (length (events s)) rq, s\<lparr>events := events s @ [Http rq]\<rparr>)"

definition http_request ::
  "http_method \<Rightarrow> string \<Rightarrow> nat \<Rightarrow> (string \<times> string) list \<Rightarrow> bool \<Rightarrow> request" where
  "http_request m url timeout hdrs redirects =
     \<lparr> rq_method = m, rq_url = url, rq_timeout = timeout, rq_headers = hdrs,
       rq_allow_redirects = redirects \<rparr>"

definition requests_get ::
  "world \<Rightarrow> string \<Rightarrow> nat \<Rightarrow> (string \<times> string) list \<Rightarrow> bool \<Rightarrow> response io" where
  "requests_get w url timeout hdrs redirects =
     requests_send w (http_request GET url timeout hdrs redirects)"

definition requests_head ::
  "world \<Rightarrow> string \<Rightarrow> nat \<Rightarrow> (string \<times> string) list \<Rightarrow> bool \<Rightarrow> response io" where
  "requests_head w url timeout hdrs redirects =
     requests_send w (http_request HEAD url timeout hdrs redirects)"

definition time_time_io :: "world \<Rightarrow> rat io" where
  "time_time_io w s = (Inr (time_time w (length (events s))), s)"

definition utcnow_io :: "world \<Rightarrow> int io" where
  "utcnow_io w s = (Inr (utcnow w (length (events s))), s)"

definition getpeercert_io ::
  "world \<Rightarrow> string \<Rightarrow> nat \<Rightarrow> nat \<Rightarrow> (string \<times> string) list option io" where
  "getpeercert_io w host port timeout s =
     (tls_getpeercert w (length (events s)) host port timeout,
      s\<lparr>events := events s @ [TlsConnect host port timeout]\<rparr>)"

section \<open>Reachability probe\<close>

text \<open>
  \<open>check_site_status(url)\<close> returns the tuple \<open>(reachable, status, headers, load_time)\<close>. The
  second component is the status code, or \<open>str(e)\<close> of the exception. Only a
  \<open>RequestException\<close> is caught. The subtraction of the two clock readings is exact here
  (the rounding of the float subtraction is left out).
\<close>

datatype status = StatusCode int | StatusText string

fun str_status :: "status \<Rightarrow> string" where
  "str_status (StatusCode n) = str_int n"
| "str_status (StatusText m) = m"

type_synonym site_status = "bool \<times> status \<times> (string \<times> string) list \<times> rat option"

definition browser_headers :: "(string \<times> string) list" where
  "browser_headers =
     [(''User-Agent'', ''Mozilla/5.0 (Windows NT 10.0; Win64; x64) AppleWebKit/537.36 (KHTML, like Gecko) Chrome/91.0.4472.124 Safari/537.36''),
      (''Accept'', ''text/html,application/xhtml+xml,application/xml;q=0.9,image/webp,*/*;q=0.8''),
      (''Accept-Language'', ''en-US,en;q=0.5'')]"

definition check_site_status :: "world \<Rightarrow> string \<Rightarrow> site_status io" where
  "check_site_status w url =
     io_try
       (io_bind (time_time_io w) (\<lambda>start_time.
        io_bind (requests_get w url (REQUEST_TIMEOUT CONFIG) browser_headers True) (\<lambda>response.
        io_bind (time_time_io w) (\<lambda>end_time.
        let load_time = end_time - start_time
        in io_return (True, StatusCode (status_code response), resp_headers response,
                      Some load_time)))))
       (\<lambda>e. if is_RequestException e
             then Some (io_return (False, StatusText (str_exn e), [], None))
             else None)"

section \<open>Certificate probe\<close>

text \<open>
  \<open>check_ssl_certificate(url)\<close>. The three \<open>except\<close> clauses are tried in source order.
  \<open>if cert\<close> is false of \<open>None\<close> and of the empty dictionary; \<open>cert['notAfter']\<close> raises
  \<open>KeyError\<close> when the key is missing. \<open>(expires - utcnow()).days\<close> is the floor of the
  difference in days.
\<close>

definition dict_get :: "(string \<times> string) list \<Rightarrow> string \<Rightarrow> exn + string" where
  "dict_get d k = (case map_of d k of None \<Rightarrow> Inl (Exn KeyError k) | Some v \<Rightarrow> Inr v)"

definition microseconds_per_day :: int where
  "microseconds_per_day = 86400000000"

text \<open>\<open>if ':' in hostname: hostname = hostname.split(':')[0]\<close>\<close>

definition strip_port :: "string \<Rightarrow> string" where
  "strip_port hostname =
     (if CHR '':'' \<in> set hostname then takeWhile (\<lambda>c. c \<noteq> CHR '':'') hostname else hostname)"

definition check_ssl_certificate :: "world \<Rightarrow> string \<Rightarrow> (bool \<times> int option) io" where
  "check_ssl_certificate w url =
     io_try
       (io_bind (io_lift (urlparse_netloc (url_lib w) url)) (\<lambda>netloc.
        let hostname = strip_port netloc
        in io_bind (getpeercert_io w hostname 443 (REQUEST_TIMEOUT CONFIG)) (\<lambda>cert.
           if cert \<noteq> None \<and> the cert \<noteq> [] then
             io_bind (io_lift (dict_get (the cert) ''notAfter'')) (\<lambda>expires_str.
             io_bind (io_lift (strptime w expires_str)) (\<lambda>expires.
             io_bind (utcnow_io w) (\<lambda>now.
             let days_left = (expires - now) div microseconds_per_day
             in io_return (True, Some days_left))))
           else io_return (False, None))))
       (\<lambda>e. if exn_class_of e = SocketGaierror \<or> exn_class_of e = SocketTimeout
             then Some (io_return (False, None))
             else if exn_class_of e = SSLError then Some (io_return (False, None))
             else if is_Exception e then Some (io_return (False, None))
             else None)"

section \<open>Link integrity probe\<close>

text \<open>
  \<open>find_broken_links(url)\<close>. The Python \<open>set\<close> named \<open>links\<close> is a list without duplicates, in
  insertion order; \<open>list(links)\<close> enumerates it in the order of the world's \<open>hash_rank\<close>
  (any order of a given set is the order of some rank). The list \<open>broken\<close> is visible to the
  outer \<open>except Exception\<close> clause, which returns what has been collected so far.
\<close>

definition set_add :: "string list \<Rightarrow> string \<Rightarrow> string list" where
  "set_add links x = (if x \<in> set links then links else links @ [x])"

definition list_of_set :: "world \<Rightarrow> string list \<Rightarrow> string list" where
  "list_of_set w links = sort_key (hash_rank w) links"

definition link_headers :: "(string \<times> string) list" where
  "link_headers =
     [(''User-Agent'', ''Mozilla/5.0 (Windows NT 10.0; Win64; x64) AppleWebKit/537.36 (KHTML, like Gecko) Chrome/91.0.4472.124 Safari/537.36'')]"

text \<open>The loop \<open>for a_tag in soup.find_all('a', href=True)\<close>, over the \<open>href\<close> values.\<close>

fun collect_links :: "urllib \<Rightarrow> string \<Rightarrow> string list \<Rightarrow> string list \<Rightarrow> exn + string list" where
  "collect_links lib url [] links = Inr links"
| "collect_links lib url (href # hrefs) links =
     (if \<not> startswith href ''#'' \<and> \<not> startswith href ''javascript:'' then
        (case urljoin lib url href of
           Inl e \<Rightarrow> Inl e
         | Inr full_url \<Rightarrow>
             (case urlparse_netloc lib full_url of
                Inl e \<Rightarrow> Inl e
              | Inr netloc_link \<Rightarrow>
                  (case urlparse_netloc lib url of
                     Inl e \<Rightarrow> Inl e
                   | Inr netloc_page \<Rightarrow>
                       if netloc_link = netloc_page
                       then collect_links lib url hrefs (set_add links full_url)
                       else collect_links lib url hrefs links)))
      else collect_links lib url hrefs links)"

text \<open>
  The loop \<open>for link in links_to_check\<close>. It ends with the list \<open>broken\<close> and, when an
  exception other than a \<open>RequestException\<close> left the loop body, with that exception.
\<close>

fun check_links ::
  "world \<Rightarrow> string list \<Rightarrow> string list \<Rightarrow> io_state \<Rightarrow> (exn option \<times> string list) \<times> io_state" where
  "check_links w [] broken s = ((None, broken), s)"
| "check_links w (link # links) broken s =
     (case requests_head w link (HEAD_REQUEST_TIMEOUT CONFIG) link_headers True s of
        (Inr resp, s') \<Rightarrow>
          if 400 \<le> status_code resp
          then check_links w links
                 (broken @ [link @ '' (Status: '' @ str_int (status_code resp) @ '')'']) s'
          else check_links w links broken s'
      | (Inl e, s') \<Rightarrow>
          if is_RequestException e
          then check_links w links (broken @ [link @ '' (Error: Connection failed)'']) s'
          else ((Some e, broken), s'))"

text \<open>\<open>except Exception: return broken\<close>\<close>

definition except_return_broken :: "exn \<Rightarrow> string list \<Rightarrow> string list io" where
  "except_return_broken e broken s = (if is_Exception e then (Inr broken, s) else (Inl e, s))"

definition find_broken_links :: "world \<Rightarrow> string \<Rightarrow> string list io" where
  "find_broken_links w url s =
     (let broken = [] in
      case requests_get w url (REQUEST_TIMEOUT CONFIG) link_headers True s of
        (Inl e, s1) \<Rightarrow> except_return_broken e broken s1
      | (Inr response, s1) \<Rightarrow>
          if \<not> resp_ok response then (Inr broken, s1)
          else
            (case html_parser w (resp_text response) of
               Inl e \<Rightarrow> except_return_broken e broken s1
             | Inr soup \<Rightarrow>
                 (case collect_links (url_lib w) url (a_hrefs soup) [] of
                    Inl e \<Rightarrow> except_return_broken e broken s1
                  | Inr links \<Rightarrow>
                      let links_to_check = take (MAX_LINKS_TO_CHECK CONFIG) (list_of_set w links)
                      in (case check_links w links_to_check broken s1 of
                            ((None, broken'), s2) \<Rightarrow> (Inr broken', s2)
                          | ((Some e, broken'), s2) \<Rightarrow> except_return_broken e broken' s2))))"

section \<open>Responsiveness probe\<close>

text \<open>
  \<open>check_mobile_responsiveness(url)\<close>. \<open>needle in s\<close> is \<open>contains needle s\<close>. The two loops
  that set a flag and \<open>break\<close> at the first match are \<open>list_ex\<close>.
\<close>

fun contains :: "string \<Rightarrow> string \<Rightarrow> bool" where
  "contains needle [] = (needle = [])"
| "contains needle (c # cs) = (startswith (c # cs) needle \<or> contains needle cs)"

definition mobile_headers :: "(string \<times> string) list" where
  "mobile_headers =
     [(''User-Agent'', ''Mozilla/5.0 (iPhone; CPU iPhone OS 13_5 like Mac OS X) '' @
        ''AppleWebKit/605.1.15 (KHTML, like Gecko) Version/13.1.1 Mobile/15E148 Safari/604.1''),
      (''Accept'', ''text/html,application/xhtml+xml,application/xml;q=0.9,image/webp,*/*;q=0.8'')]"

definition attr_or_empty :: "string option \<Rightarrow> string" where
  "attr_or_empty a = (case a of None \<Rightarrow> [] | Some v \<Rightarrow> v)"

definition check_mobile_responsiveness :: "world \<Rightarrow> string \<Rightarrow> mobile_result io" where
  "check_mobile_responsiveness w url =
     io_try
       (io_bind (requests_get w url (REQUEST_TIMEOUT CONFIG) mobile_headers True) (\<lambda>response.
        io_bind (io_lift (html_parser w (resp_text response))) (\<lambda>soup.
        let viewport = viewport_meta soup;
            has_viewport =
              (case viewport of
                 None \<Rightarrow> False
               | Some content \<Rightarrow>
                   contains ''width=device-width'' (lower (attr_or_empty content))
                   \<or> contains ''initial-scale'' (lower (attr_or_empty content)));
            media_queries =
              list_ex (\<lambda>style_string. style_string \<noteq> None \<and> the style_string \<noteq> []
                         \<and> contains ''@media'' (the style_string))
                (style_strings soup);
            frameworks =
              list_ex (\<lambda>link_href.
                         list_ex (\<lambda>fw. contains fw (lower (attr_or_empty link_href)))
                           [''bootstrap'', ''foundation'', ''materialize'', ''bulma'', ''tailwind''])
                (stylesheet_hrefs soup);
            responsive = (has_viewport \<or> media_queries \<or> frameworks);
            details0 = [];
            details1 = (if has_viewport then details0 @ [''Has viewport meta tag''] else details0);
            details2 = (if media_queries then details1 @ [''Uses media queries''] else details1);
            details3 = (if frameworks then details2 @ [''Uses responsive framework'']
                        else details2)
        in io_return (responsive, details3))))
       (\<lambda>e. if is_Exception e
             then Some (io_return (False, [''Error checking responsiveness'']))
             else None)"

section \<open>Pipeline orchestrator\<close>

text \<open>The non-ASCII characters of the printed lines, as their UTF-8 bytes.\<close>

definition BAR_CHART :: string where "BAR_CHART = [CHR 0xF0, CHR 0x9F, CHR 0x93, CHR 0x8A]"
definition HOURGLASS :: string where "HOURGLASS = [CHR 0xE2, CHR 0x8F, CHR 0xB3]"
definition CHECK_MARK :: string where "CHECK_MARK = [CHR 0xE2, CHR 0x9C, CHR 0x85]"
definition STOPWATCH :: string where
  "STOPWATCH = [CHR 0xE2, CHR 0x8F, CHR 0xB1, CHR 0xEF, CHR 0xB8, CHR 0x8F]"
definition CROSS_MARK :: string where "CROSS_MARK = [CHR 0xE2, CHR 0x9D, CHR 0x8C]"
definition WARNING_SIGN :: string where
  "WARNING_SIGN = [CHR 0xE2, CHR 0x9A, CHR 0xA0, CHR 0xEF, CHR 0xB8, CHR 0x8F]"
definition MEMO :: string where "MEMO = [CHR 0xF0, CHR 0x9F, CHR 0x93, CHR 0x9D]"
definition BULLET :: string where "BULLET = [CHR 0xE2, CHR 0x80, CHR 0xA2]"
definition NL :: string where "NL = [CHR 0x0A]"

fun join :: "string \<Rightarrow> string list \<Rightarrow> string" where
  "join sep [] = []"
| "join sep [x] = x"
| "join sep (x # y # ys) = x @ sep @ join sep (y # ys)"

text \<open>
  The dictionary \<open>results\<close>: a key that has not been assigned is \<open>None\<close>, and reading it
  raises \<open>KeyError\<close>.
\<close>

record results =
  r_status :: "site_status option"
  r_ssl :: "(bool \<times> int option) option"
  r_broken_links :: "string list option"
  r_mobile :: "mobile_result option"
  r_suggestions :: "string list option"

definition empty_results :: results where
  "empty_results = \<lparr> r_status = None, r_ssl = None, r_broken_links = None, r_mobile = None,
                      r_suggestions = None \<rparr>"

definition results_item :: "'a option \<Rightarrow> string \<Rightarrow> 'a io" where
  "results_item v k = io_lift (case v of None \<Rightarrow> Inl (Exn KeyError k) | Some x \<Rightarrow> Inr x)"

text \<open>Lines 222 to 230: the report of the status, and the defaults of an unreachable site.\<close>

definition report_status :: "results \<Rightarrow> bool \<Rightarrow> status \<Rightarrow> rat option \<Rightarrow> results io" where
  "report_status res reachable st load_time =
     (if reachable then
        io_bind (print (CHECK_MARK @ '' Site is reachable (Status: '' @ str_status st @ '')''))
          (\<lambda>_.
        io_bind (if load_time \<noteq> None \<and> the load_time \<noteq> 0
                 then print (STOPWATCH @ '' Load time: '' @ format_2f (the load_time)
                               @ '' seconds'')
                 else io_return ()) (\<lambda>_.
        io_return res))
      else
        io_bind (print (CROSS_MARK @ '' Site is not reachable: '' @ str_status st)) (\<lambda>_.
        io_return (res\<lparr> r_ssl := Some (False, None), r_broken_links := Some [],
                       r_mobile := Some (False, [''Site not reachable'']) \<rparr>)))"

text \<open>Lines 233 to 241: the certificate probe.\<close>

definition run_ssl :: "world \<Rightarrow> string \<Rightarrow> results \<Rightarrow> results io" where
  "run_ssl w url res =
     io_bind (print (NL @ HOURGLASS @ '' Checking SSL certificate...'')) (\<lambda>_.
     io_bind (check_ssl_certificate w url) (\<lambda>ssl.
     io_bind (if fst ssl
              then print (CHECK_MARK @ '' SSL certificate is valid (Expires in: ''
                            @ (case snd ssl of None \<Rightarrow> ''None'' | Some d \<Rightarrow> str_int d)
                            @ '' days)'')
              else print (CROSS_MARK @ '' Invalid or missing SSL certificate'')) (\<lambda>_.
     io_return (res\<lparr> r_ssl := Some ssl \<rparr>))))"

text \<open>Lines 243 to 255: the link probe; at most five broken links are listed.\<close>

definition run_links :: "world \<Rightarrow> string \<Rightarrow> results \<Rightarrow> results io" where
  "run_links w url res =
     io_bind (print (NL @ HOURGLASS @ '' Checking for broken links...'')) (\<lambda>_.
     io_bind (find_broken_links w url) (\<lambda>broken.
     io_bind (if broken = [] then print (CHECK_MARK @ '' No broken links found'')
              else
                io_bind (print (CROSS_MARK @ '' Found '' @ str_nat (length broken)
                                  @ '' broken links:'')) (\<lambda>_.
                io_bind (print_all (map (\<lambda>(i, link). ''   '' @ str_nat (i + 1) @ ''. '' @ link)
                                      (enumerate 0 (take 5 broken)))) (\<lambda>_.
                if 5 < length broken
                then print (''   ... and '' @ str_nat (length broken - 5) @ '' more'')
                else io_return ()))) (\<lambda>_.
     io_return (res\<lparr> r_broken_links := Some broken \<rparr>))))"

text \<open>Lines 257 to 265: the responsiveness probe.\<close>

definition run_mobile :: "world \<Rightarrow> string \<Rightarrow> results \<Rightarrow> results io" where
  "run_mobile w url res =
     io_bind (print (NL @ HOURGLASS @ '' Checking mobile responsiveness...'')) (\<lambda>_.
     io_bind (check_mobile_responsiveness w url) (\<lambda>mobile.
     io_bind (if fst mobile
              then print (CHECK_MARK @ '' Site appears to be mobile responsive (''
                            @ join '', '' (snd mobile) @ '')'')
              else print (WARNING_SIGN @ '' Site may not be fully mobile responsive'')) (\<lambda>_.
     io_return (res\<lparr> r_mobile := Some mobile \<rparr>))))"

text \<open>Lines 267 to 283: the suggestions and the recommendations printed.\<close>

definition finish_report :: "results \<Rightarrow> rat option \<Rightarrow> results io" where
  "finish_report res load_time =
     io_bind (results_item (r_ssl res) ''ssl'') (\<lambda>ssl.
     io_bind (results_item (r_broken_links res) ''broken_links'') (\<lambda>broken.
     io_bind (results_item (r_mobile res) ''mobile'') (\<lambda>mobile_res.
     let suggestions = generate_suggestions (fst ssl) (snd ssl) broken mobile_res load_time;
         res' = res\<lparr> r_suggestions := Some suggestions \<rparr>
     in io_bind (print (NL @ MEMO @ '' RECOMMENDATIONS:'')) (\<lambda>_.
        io_bind (if suggestions \<noteq> []
                 then print_all (map (\<lambda>suggestion. ''  '' @ BULLET @ '' '' @ suggestion)
                                   suggestions)
                 else print (''  '' @ CHECK_MARK
                               @ '' Your site is in excellent health. Keep it up!'')) (\<lambda>_.
        io_bind (print (NL @ CHECK_MARK @ '' Health check completed!'' @ NL)) (\<lambda>_.
        io_return res'))))))"

text \<open>
  \<open>run_website_test(url)\<close>. The Python function returns nothing: what it does is in the
  state (the network operations made and the lines printed). The model also returns the
  final value of the local dictionary \<open>results\<close>, or \<open>None\<close> when the \<open>except\<close> clause ran.
\<close>

definition run_website_test :: "world \<Rightarrow> string \<Rightarrow> results option io" where
  "run_website_test w url0 =
     io_try
       (io_bind (io_lift (validate_url (url_lib w) url0)) (\<lambda>url.
        io_bind (print (NL @ BAR_CHART @ '' Starting health check for '' @ url @ ''...'' @ NL))
          (\<lambda>_.
        io_bind (print (HOURGLASS @ '' Checking site status...'')) (\<lambda>_.
        io_bind (check_site_status w url) (\<lambda>st.
        let res0 = empty_results\<lparr> r_status := Some st \<rparr>;
            reachable = fst st;
            status = fst (snd st);
            load_time = snd (snd (snd st))
        in io_bind (report_status res0 reachable status load_time) (\<lambda>res1.
           io_bind (if reachable
                    then io_bind (run_ssl w url res1) (\<lambda>res2.
                         io_bind (run_links w url res2) (\<lambda>res3.
                         run_mobile w url res3))
                    else io_return res1) (\<lambda>res4.
           io_bind (finish_report res4 load_time) (\<lambda>res5.
           io_return (Some res5)))))))))
       (\<lambda>e. if is_Exception e
             then Some (io_bind (print (CROSS_MARK @ '' An error occurred: '' @ str_exn e))
                          (\<lambda>_. io_return None))
             else None)"

section \<open>Reading decimal numerals\<close>

text \<open>
  What a string of decimal digits denotes: \<open>dec_val\<close> is the number written by the digits,
  most significant first. It is used to say what the printed counts and load times mean.
\<close>

definition digit_val :: "char \<Rightarrow> nat" where
  "digit_val c = of_char c - 48"

definition is_digits :: "string \<Rightarrow> bool" where
  "is_digits s = list_all is_ascii_digit s"

definition dec_val :: "string \<Rightarrow> nat" where
  "dec_val s = foldl (\<lambda>acc c. 10 * acc + digit_val c) 0 s"

section \<open>Example environment\<close>

text \<open>
  A library instance for the examples below: no bracketed host and no non-ASCII network
  location is rejected, and \<open>urljoin\<close> returns the reference itself, as the library does for
  an absolute reference. The example URLs have no brackets and are ASCII.
\<close>

definition example_urllib :: urllib where
  "example_urllib =
     \<lparr> check_bracketed_host = (\<lambda>h. None), checknetloc_nfkc = (\<lambda>n. None),
       urljoin = (\<lambda>base href. Inr href) \<rparr>"

definition example_state :: io_state where
  "example_state = \<lparr> events = [], stdout = [] \<rparr>"

text \<open>A world in which nothing answers: every request is refused and no name resolves.\<close>

definition example_world_down :: world where
  "example_world_down =
     \<lparr> url_lib = example_urllib,
       http_send = (\<lambda>n rq. Inl (Exn (RequestException ConnectionError) ''Connection refused'')),
       time_time = (\<lambda>n. of_nat n),
       utcnow = (\<lambda>n. 0),
       tls_getpeercert =
         (\<lambda>n host port timeout. Inl (Exn SocketGaierror ''Name or service not known'')),
       strptime = (\<lambda>s. Inl (Exn ValueError ''unconverted data remains'')),
       html_parser = (\<lambda>t. Inl (Exn OtherException ''parser failure'')),
       hash_rank = (\<lambda>s. 0) \<rparr>"

text \<open>
  A world with a page at \<open>https://example.com\<close>: it links to itself by a fragment and a
  script, to three pages of its own site (one of them twice) and to another site. Of its
  own pages, \<open>/b\<close> answers 404 and \<open>/c\<close> times out.
\<close>

definition example_page :: soup where
  "example_page =
     \<lparr> a_hrefs = [''#top'', ''javascript:void(0)'', ''https://example.com/a'',
                  ''https://example.com/b'', ''https://other.org/x'',
                  ''https://example.com/b'', ''https://example.com/c''],
       viewport_meta = Some (Some ''width=device-width, initial-scale=1''),
       style_strings = [],
       stylesheet_hrefs = [] \<rparr>"

definition example_http :: "nat \<Rightarrow> request \<Rightarrow> exn + response" where
  "example_http n rq =
     (if rq_method rq = HEAD \<and> rq_url rq = ''https://example.com/b''
      then Inr \<lparr> status_code = 404, resp_headers = [], resp_text = [] \<rparr>
      else if rq_method rq = HEAD \<and> rq_url rq = ''https://example.com/c''
      then Inl (Exn (RequestException Timeout) ''Read timed out'')
      else Inr \<lparr> status_code = 200, resp_headers = [], resp_text = ''<html>'' \<rparr>)"

definition example_world_up :: world where
  "example_world_up =
     \<lparr> url_lib = example_urllib,
       http_send = example_http,
       time_time = (\<lambda>n. of_nat n * (9 / 2)),
       utcnow = (\<lambda>n. 0),
       tls_getpeercert =
         (\<lambda>n host port timeout. Inr (Some [(''notAfter'', ''Jan  1 00:00:00 2030 GMT'')])),
       strptime = (\<lambda>s. Inr (10 * microseconds_per_day)),
       html_parser = (\<lambda>t. Inr example_page),
       hash_rank = length \<rparr>"

section \<open>Reading the log of network operations\<close>

text \<open>The URLs of the \<open>HEAD\<close> requests of a log, in order.\<close>

fun head_urls :: "event list \<Rightarrow> string list" where
  "head_urls [] = []"
| "head_urls (Http rq # es) =
     (if rq_method rq = HEAD then rq_url rq # head_urls es else head_urls es)"
| "head_urls (TlsConnect host port timeout # es) = head_urls es"

text \<open>
  \<open>same_domain_link lib url hrefs l\<close>: the link \<open>l\<close> is \<open>urljoin(url, href)\<close> for an \<open>href\<close> of the
  page that starts with neither \<open>#\<close> nor \<open>javascript:\<close>, and its network location is that of
  the page.
\<close>

definition same_domain_link :: "urllib \<Rightarrow> string \<Rightarrow> string list \<Rightarrow> string \<Rightarrow> bool" where
  "same_domain_link lib url hrefs l =
     (list_ex (\<lambda>href. \<not> startswith href ''#'' \<and> \<not> startswith href ''javascript:''
                 \<and> urljoin lib url href = Inr l) hrefs
      \<and> (case urlparse_netloc lib l of
            Inl e \<Rightarrow> False
          | Inr netloc_link \<Rightarrow>
              (case urlparse_netloc lib url of
                 Inl e \<Rightarrow> False
               | Inr netloc_page \<Rightarrow> netloc_link = netloc_page)))"

definition new_events :: "io_state \<Rightarrow> io_state \<Rightarrow> event list" where
  "new_events s s' = drop (length (events s)) (events s')"

text \<open>The two kinds of request that \<open>find_broken_links\<close> makes.\<close>

definition link_get_request :: "string \<Rightarrow> request" where
  "link_get_request url = http_request GET url (REQUEST_TIMEOUT CONFIG) link_headers True"

definition head_request :: "string \<Rightarrow> request" where
  "head_request link = http_request HEAD link (HEAD_REQUEST_TIMEOUT CONFIG) link_headers True"

text \<open>
  The \<open>href\<close> values of the page that \<open>find_broken_links\<close> fetches in state \<open>s\<close>, and the set
  \<open>links\<close> it has collected from them when its first loop ends (both empty when the fetch,
  the parser or the loop fails).
\<close>

definition page_hrefs :: "world \<Rightarrow> string \<Rightarrow> io_state \<Rightarrow> string list" where
  "page_hrefs w url s =
     (case http_send w (length (events s)) (link_get_request url) of
        Inl e \<Rightarrow> []
      | Inr response \<Rightarrow>
          if \<not> resp_ok response then []
          else (case html_parser w (resp_text response) of
                  Inl e \<Rightarrow> []
                | Inr soup \<Rightarrow> a_hrefs soup))"

definition page_links :: "world \<Rightarrow> string \<Rightarrow> io_state \<Rightarrow> string list" where
  "page_links w url s =
     (case collect_links (url_lib w) url (page_hrefs w url s) [] of
        Inl e \<Rightarrow> []
      | Inr links \<Rightarrow> links)"

text \<open>An entry \<open>b\<close> of the result reports the link \<open>l\<close>.\<close>

definition reported :: "string \<Rightarrow> string \<Rightarrow> bool" where
  "reported l b =
     (b = l @ '' (Error: Connection failed)''
      \<or> (\<exists>code. 400 \<le> code \<and> b = l @ '' (Status: '' @ str_int code @ '')''))"

text \<open>The lines that \<open>run_website_test\<close> prints for a site that is not reachable.\<close>

definition unreachable_lines :: "string \<Rightarrow> string \<Rightarrow> string list" where
  "unreachable_lines url msg =
     [NL @ BAR_CHART @ '' Starting health check for '' @ url @ ''...'' @ NL,
      HOURGLASS @ '' Checking site status...'',
      CROSS_MARK @ '' Site is not reachable: '' @ msg,
      NL @ MEMO @ '' RECOMMENDATIONS:'',
      ''  '' @ BULLET @ '' Install a valid SSL certificate using Let's Encrypt or a trusted CA'',
      ''  '' @ BULLET @ '' Improve mobile responsiveness by adding a viewport meta tag'',
      ''  '' @ BULLET @ '' Consider using responsive frameworks like Bootstrap or Tailwind CSS'',
      NL @ CHECK_MARK @ '' Health check completed!'' @ NL]"

section \<open>Properties of the suggestion synthesizer\<close>

subsection \<open>The printed numbers\<close>

lemma digit_char_spec:
  assumes "d < 10"
  shows "digit_val (digit_char d) = d \<and> is_ascii_digit (digit_char d)
         \<and> (d \<noteq> 0 \<longrightarrow> digit_char d \<noteq> CHR ''0'')"
proof -
  from assms have "d = 0 \<or> d = 1 \<or> d = 2 \<or> d = 3 \<or> d = 4 \<or> d = 5 \<or> d = 6 \<or> d = 7
      \<or> d = 8 \<or> d = 9"
    by arith
  then show ?thesis
    by (elim disjE) (simp_all add: digit_char_def digit_val_def is_ascii_digit_def)
qed

lemma dec_val_snoc: "dec_val (s @ [c]) = 10 * dec_val s + digit_val c"
  by (simp add: dec_val_def)

lemma str_nat_spec:
  "is_digits (str_nat n) \<and> str_nat n \<noteq> [] \<and> dec_val (str_nat n) = n
   \<and> (n \<noteq> 0 \<longrightarrow> hd (str_nat n) \<noteq> CHR ''0'')"
proof (induction n rule: str_nat.induct)
  case (1 n)
  show ?case
  proof (cases "n < 10")
    case True
    then have s: "str_nat n = [digit_char n]"
      by (simp add: str_nat.simps)
    from digit_char_spec [OF True] show ?thesis
      unfolding s by (simp add: is_digits_def dec_val_def)
  next
    case False
    then have s: "str_nat n = str_nat (n div 10) @ [digit_char (n mod 10)]"
      by (subst str_nat.simps) simp
    from False have nz: "n div 10 \<noteq> 0" by simp
    from "1.IH" [OF False] nz have ih: "is_digits (str_nat (n div 10))"
      "str_nat (n div 10) \<noteq> []" "dec_val (str_nat (n div 10)) = n div 10"
      "hd (str_nat (n div 10)) \<noteq> CHR ''0''"
      by simp_all
    have m: "n mod 10 < 10" by simp
    from digit_char_spec [OF m] ih show ?thesis
      unfolding s by (simp add: is_digits_def dec_val_snoc)
  qed
qed

lemma round_half_even_spec:
  assumes "0 \<le> q"
  shows "0 \<le> round_half_even q
         \<and> \<bar>of_int (round_half_even q) - q\<bar> \<le> 1 / 2
         \<and> (\<bar>of_int (round_half_even q) - q\<bar> = 1 / 2 \<longrightarrow> even (round_half_even q))"
proof -
  define f where "f = \<lfloor>q\<rfloor>"
  have lo: "of_int f \<le> q" unfolding f_def by simp
  have hi: "q < of_int f + 1" unfolding f_def by linarith
  have nn: "0 \<le> f" unfolding f_def using assms by simp
  have r: "round_half_even q =
      (if q - of_int f < 1 / 2 then f
       else if 1 / 2 < q - of_int f then f + 1
       else if even f then f else f + 1)"
    by (simp add: round_half_even_def Let_def f_def)
  show ?thesis
  proof (cases "q - of_int f < 1 / 2")
    case True
    with r have "round_half_even q = f" by simp
    with True lo nn show ?thesis by (simp add: abs_if)
  next
    case False
    note nlt = False
    show ?thesis
    proof (cases "1 / 2 < q - of_int f")
      case True
      with nlt r have "round_half_even q = f + 1" by simp
      with True hi nn show ?thesis by (simp add: abs_if)
    next
      case False
      with nlt have eq: "q - of_int f = 1 / 2" by simp
      show ?thesis
      proof (cases "even f")
        case True
        with nlt False r have "round_half_even q = f" by simp
        with eq True nn show ?thesis by (simp add: abs_if)
      next
        case odd: False
        with nlt False r have "round_half_even q = f + 1" by simp
        with eq odd nn show ?thesis by (simp add: abs_if)
      qed
    qed
  qed
qed

lemma format_2f_spec:
  assumes "3 < t"
  shows "\<exists>ip fp. format_2f t = ip @ ''.'' @ fp
           \<and> is_digits ip \<and> ip \<noteq> [] \<and> hd ip \<noteq> CHR ''0''
           \<and> is_digits fp \<and> length fp = 2
           \<and> \<bar>of_nat (100 * dec_val ip + dec_val fp) - 100 * t\<bar> \<le> 1 / 2
           \<and> (\<bar>of_nat (100 * dec_val ip + dec_val fp) - 100 * t\<bar> = 1 / 2
                \<longrightarrow> even (100 * dec_val ip + dec_val fp))"
proof -
  define r where "r = round_half_even (t * 100)"
  define h where "h = nat r"
  from assms have q: "0 \<le> t * 100" by simp
  from round_half_even_spec [OF q] have
    r0: "0 \<le> r" and rc: "\<bar>of_int r - t * 100\<bar> \<le> 1 / 2"
    and re: "\<bar>of_int r - t * 100\<bar> = 1 / 2 \<longrightarrow> even r"
    unfolding r_def by blast+
  have hr: "(of_nat h :: rat) = of_int r"
    using r0 by (simp add: h_def)
  have "299 < (of_int r :: rat)"
    using rc assms by (simp add: abs_if split: if_splits)
  then have "299 < r" by linarith
  then have h300: "300 \<le> h" by (simp add: h_def)
  let ?ip = "str_nat (h div 100)"
  let ?fp = "[digit_char (h mod 100 div 10), digit_char (h mod 10)]"
  have f: "format_2f t = ?ip @ ''.'' @ ?fp"
    using assms by (simp add: format_2f_def Let_def h_def r_def abs_if)
  from h300 have nz: "h div 100 \<noteq> 0" by simp
  from str_nat_spec [of "h div 100"] nz have ip:
    "is_digits ?ip" "?ip \<noteq> []" "dec_val ?ip = h div 100" "hd ?ip \<noteq> CHR ''0''"
    by simp_all
  have d1: "h mod 100 div 10 < 10" by simp
  have d2: "h mod 10 < 10" by simp
  have fpd: "is_digits ?fp"
    using digit_char_spec [OF d1] digit_char_spec [OF d2] by (simp add: is_digits_def)
  have m: "h mod 100 mod 10 = h mod 10"
    by (simp add: mod_mod_cancel)
  have "10 * (h mod 100 div 10) + h mod 100 mod 10 = h mod 100"
    by simp
  then have s: "10 * (h mod 100 div 10) + h mod 10 = h mod 100"
    unfolding m .
  have "dec_val ?fp = 10 * (h mod 100 div 10) + h mod 10"
    using digit_char_spec [OF d1] digit_char_spec [OF d2] by (simp add: dec_val_def)
  with s have fpv: "dec_val ?fp = h mod 100"
    by (simp only:)
  have total: "100 * dec_val ?ip + dec_val ?fp = h"
    unfolding ip(3) fpv by simp
  have ev: "even h = even r"
    using r0 by (simp add: h_def even_nat_iff)
  have c: "\<bar>of_nat h - 100 * t\<bar> \<le> 1 / 2"
    using rc unfolding hr by (simp add: mult.commute)
  have e: "\<bar>of_nat h - 100 * t\<bar> = 1 / 2 \<longrightarrow> even h"
    using re unfolding hr ev by (simp add: mult.commute)
  have c': "\<bar>of_nat (100 * dec_val ?ip + dec_val ?fp) - 100 * t\<bar> \<le> 1 / 2"
    using c by (simp only: total)
  have e': "\<bar>of_nat (100 * dec_val ?ip + dec_val ?fp) - 100 * t\<bar> = 1 / 2
              \<longrightarrow> even (100 * dec_val ?ip + dec_val ?fp)"
    using e by (simp only: total)
  have l: "length ?fp = 2" by simp
  from f ip(1,2,4) fpd l c' e' show ?thesis
    by blast
qed

lemma str_nat_numeral:
  "str_nat (numeral k) =
     (if numeral k < (10::nat) then [digit_char (numeral k)]
      else str_nat (numeral k div 10) @ [digit_char (numeral k mod 10)])"
  by (rule str_nat.simps)

lemma str_nat_small: "str_nat 0 = ''0''" "str_nat (Suc 0) = ''1''"
  by (simp_all add: str_nat.simps digit_char_def)

lemma floor_examples:
  "\<lfloor>625 / 2 :: rat\<rfloor> = 312" "\<lfloor>675 / 2 :: rat\<rfloor> = 337" "\<lfloor>3001 / 10 :: rat\<rfloor> = 300"
  "\<lfloor>6172839 / 5 :: rat\<rfloor> = 1234567"
  by (simp_all add: floor_eq_iff)

lemma round_half_even_examples:
  "round_half_even 450 = 450" "round_half_even (625 / 2) = 312"
  "round_half_even (675 / 2) = 338" "round_half_even (3001 / 10) = 300"
  "round_half_even (6172839 / 5) = 1234568"
  by (simp_all add: round_half_even_def Let_def floor_examples)

lemma format_2f_examples:
  "format_2f (9 / 2) = ''4.50''" "format_2f (25 / 8) = ''3.12''"
  "format_2f (27 / 8) = ''3.38''" "format_2f (3001 / 1000) = ''3.00''"
  "format_2f (12345678 / 1000) = ''12345.68''"
  by (simp_all add: format_2f_def round_half_even_examples str_nat_numeral str_nat_small
      digit_char_def)

text \<open>
  Claim C1. The rules of \<open>generate_suggestions\<close> apply in a fixed order. When the certificate
  is invalid, there are broken links, the site is not responsive and the load time \<open>t\<close> is
  above 3 seconds, the result is exactly: the certificate suggestion, the broken-links
  suggestion, the two responsiveness suggestions, and the three performance suggestions.
  The count in the second suggestion is the decimal numeral, without leading zero, of the
  number of broken links. The load time in the fifth is printed as an integer part without
  leading zero, a dot and exactly two digits; the number of hundredths so written is within
  one half of \<open>100 * t\<close>, and is even when it is exactly one half away (the measured value
  to two decimals). When no rule applies the result is empty. Whatever the input, no
  suggestion occurs twice and there are at most seven.
\<close>

theorem generate_suggestions_order:
  "(\<not> ssl_ok \<and> broken \<noteq> [] \<and> \<not> fst mobile_res \<and> load_time = Some t \<and> 3 < t \<longrightarrow>
     generate_suggestions ssl_ok days_left broken mobile_res load_time =
       [''Install a valid SSL certificate using Let's Encrypt or a trusted CA'',
        ''Fix '' @ str_nat (length broken) @ '' broken links on your website'',
        ''Improve mobile responsiveness by adding a viewport meta tag'',
        ''Consider using responsive frameworks like Bootstrap or Tailwind CSS'',
        ''Optimize page load time (currently '' @ format_2f t @ ''s)'',
        ''Compress images and minify CSS/JavaScript files'',
        ''Consider using a CDN for static assets'']
     \<and> is_digits (str_nat (length broken)) \<and> hd (str_nat (length broken)) \<noteq> CHR ''0''
     \<and> dec_val (str_nat (length broken)) = length broken
     \<and> (\<exists>ip fp. format_2f t = ip @ ''.'' @ fp
           \<and> is_digits ip \<and> ip \<noteq> [] \<and> hd ip \<noteq> CHR ''0''
           \<and> is_digits fp \<and> length fp = 2
           \<and> \<bar>of_nat (100 * dec_val ip + dec_val fp) - 100 * t\<bar> \<le> 1 / 2
           \<and> (\<bar>of_nat (100 * dec_val ip + dec_val fp) - 100 * t\<bar> = 1 / 2
                \<longrightarrow> even (100 * dec_val ip + dec_val fp))))
   \<and> (ssl_ok \<and> (days_left = None \<or> 15 \<le> the days_left) \<and> broken = [] \<and> fst mobile_res
        \<and> (load_time = None \<or> the load_time \<le> 3) \<longrightarrow>
     generate_suggestions ssl_ok days_left broken mobile_res load_time = [])
   \<and> distinct (generate_suggestions ssl_ok days_left broken mobile_res load_time)
   \<and> length (generate_suggestions ssl_ok days_left broken mobile_res load_time) \<le> 7"
  (is "(_ \<longrightarrow> ?Q) \<and> (?N \<longrightarrow> ?E) \<and> _")
proof -
  have order: "generate_suggestions ssl_ok days_left broken mobile_res load_time =
       [''Install a valid SSL certificate using Let's Encrypt or a trusted CA'',
        ''Fix '' @ str_nat (length broken) @ '' broken links on your website'',
        ''Improve mobile responsiveness by adding a viewport meta tag'',
        ''Consider using responsive frameworks like Bootstrap or Tailwind CSS'',
        ''Optimize page load time (currently '' @ format_2f t @ ''s)'',
        ''Compress images and minify CSS/JavaScript files'',
        ''Consider using a CDN for static assets'']"
    if "\<not> ssl_ok \<and> broken \<noteq> [] \<and> \<not> fst mobile_res \<and> load_time = Some t \<and> 3 < t"
    using that by (simp add: generate_suggestions_def)
  have count: "is_digits (str_nat (length broken)) \<and> hd (str_nat (length broken)) \<noteq> CHR ''0''
     \<and> dec_val (str_nat (length broken)) = length broken"
    if "broken \<noteq> []"
    using that str_nat_spec [of "length broken"] by simp
  have none: "generate_suggestions ssl_ok days_left broken mobile_res load_time = []"
    if "ssl_ok \<and> (days_left = None \<or> 15 \<le> the days_left) \<and> broken = [] \<and> fst mobile_res
        \<and> (load_time = None \<or> the load_time \<le> 3)"
    using that by (auto simp add: generate_suggestions_def CONFIG_def Let_def)
  have rest: "distinct (generate_suggestions ssl_ok days_left broken mobile_res load_time)
    \<and> length (generate_suggestions ssl_ok days_left broken mobile_res load_time) \<le> 7"
    by (auto simp add: generate_suggestions_def CONFIG_def Let_def)
  have first: "\<not> ssl_ok \<and> broken \<noteq> [] \<and> \<not> fst mobile_res \<and> load_time = Some t \<and> 3 < t
      \<longrightarrow> ?Q"
  proof
    assume p: "\<not> ssl_ok \<and> broken \<noteq> [] \<and> \<not> fst mobile_res \<and> load_time = Some t \<and> 3 < t"
    then have nb: "broken \<noteq> []" and t3: "3 < t" by simp_all
    from count [OF nb] have c: "is_digits (str_nat (length broken))"
      "hd (str_nat (length broken)) \<noteq> CHR ''0''"
      "dec_val (str_nat (length broken)) = length broken"
      by simp_all
    show ?Q
      by (intro conjI order [OF p] c format_2f_spec [OF t3])
  qed
  have second: "?N \<longrightarrow> ?E"
    using none by (rule impI)
  show ?thesis
    by (rule conjI [OF first conjI [OF second rest]])
qed

theorem generate_suggestions_order_witness:
  "generate_suggestions False None [''https://example.com/a (Status: 404)'']
     (False, [''Site not reachable'']) (Some (9 / 2)) =
       [''Install a valid SSL certificate using Let's Encrypt or a trusted CA'',
        ''Fix 1 broken links on your website'',
        ''Improve mobile responsiveness by adding a viewport meta tag'',
        ''Consider using responsive frameworks like Bootstrap or Tailwind CSS'',
        ''Optimize page load time (currently 4.50s)'',
        ''Compress images and minify CSS/JavaScript files'',
        ''Consider using a CDN for static assets'']
   \<and> generate_suggestions False (Some 3) (replicate 12 ''x'')
     (False, []) (Some (25 / 8)) =
       [''Install a valid SSL certificate using Let's Encrypt or a trusted CA'',
        ''Fix 12 broken links on your website'',
        ''Improve mobile responsiveness by adding a viewport meta tag'',
        ''Consider using responsive frameworks like Bootstrap or Tailwind CSS'',
        ''Optimize page load time (currently 3.12s)'',
        ''Compress images and minify CSS/JavaScript files'',
        ''Consider using a CDN for static assets'']
   \<and> dec_val ''12'' = 12 \<and> dec_val ''3'' = 3
   \<and> format_2f (27 / 8) = ''3.38''
   \<and> format_2f (3001 / 1000) = ''3.00''
   \<and> format_2f (12345678 / 1000) = ''12345.68''
   \<and> generate_suggestions True (Some 90) [] (True, [''Has viewport meta tag'']) (Some 1) = []"
proof -
  have a: "generate_suggestions False None [''https://example.com/a (Status: 404)'']
     (False, [''Site not reachable'']) (Some (9 / 2)) =
       [''Install a valid SSL certificate using Let's Encrypt or a trusted CA'',
        ''Fix 1 broken links on your website'',
        ''Improve mobile responsiveness by adding a viewport meta tag'',
        ''Consider using responsive frameworks like Bootstrap or Tailwind CSS'',
        ''Optimize page load time (currently 4.50s)'',
        ''Compress images and minify CSS/JavaScript files'',
        ''Consider using a CDN for static assets'']"
    using generate_suggestions_order [where ssl_ok = False and days_left = None
      and broken = "[''https://example.com/a (Status: 404)'']"
      and mobile_res = "(False, [''Site not reachable''])"
      and load_time = "Some (9 / 2)" and t = "9 / 2"]
    by (simp add: format_2f_examples str_nat_numeral str_nat_small digit_char_def)
  have b: "generate_suggestions False (Some 3) (replicate 12 ''x'')
     (False, []) (Some (25 / 8)) =
       [''Install a valid SSL certificate using Let's Encrypt or a trusted CA'',
        ''Fix 12 broken links on your website'',
        ''Improve mobile responsiveness by adding a viewport meta tag'',
        ''Consider using responsive frameworks like Bootstrap or Tailwind CSS'',
        ''Optimize page load time (currently 3.12s)'',
        ''Compress images and minify CSS/JavaScript files'',
        ''Consider using a CDN for static assets'']"
    using generate_suggestions_order [where ssl_ok = False and days_left = "Some 3"
      and broken = "replicate 12 ''x''" and mobile_res = "(False, [])"
      and load_time = "Some (25 / 8)" and t = "25 / 8"]
    by (simp add: format_2f_examples str_nat_numeral str_nat_small digit_char_def)
  have c: "generate_suggestions True (Some 90) [] (True, [''Has viewport meta tag''])
      (Some 1) = []"
    using generate_suggestions_order [where ssl_ok = True and days_left = "Some 90"
      and broken = "[]" and mobile_res = "(True, [''Has viewport meta tag''])"
      and load_time = "Some 1"]
    by simp
  have d: "dec_val ''12'' = 12" "dec_val ''3'' = 3"
    by (simp_all add: dec_val_def digit_val_def)
  show ?thesis
    by (intro conjI a b c d format_2f_examples)
qed

section \<open>Properties of the URL normalizer\<close>

lemmas url_eval = urlparse_netloc_def urlparse_def lstrip_c0_space_def remove_unsafe_def
  split_scheme_def splitnetloc_def check_netloc_def is_ascii_alpha_def is_scheme_char_def
  is_ascii_digit_def is_ascii_def lower_def ascii_lower_char_def example_urllib_def

lemma startswithD: "startswith s p \<Longrightarrow> \<exists>r. s = p @ r"
  unfolding startswith_def by (metis append_take_drop_id)

lemma split_scheme_https:
  "split_scheme (remove_unsafe (lstrip_c0_space (''https://'' @ r))) =
     (''https'', ''//'' @ remove_unsafe r)"
  by (simp add: split_scheme_def remove_unsafe_def lstrip_c0_space_def is_ascii_alpha_def
      is_scheme_char_def is_ascii_digit_def lower_def ascii_lower_char_def Let_def)

lemma split_scheme_http:
  "split_scheme (remove_unsafe (lstrip_c0_space (''http://'' @ r))) =
     (''http'', ''//'' @ remove_unsafe r)"
  by (simp add: split_scheme_def remove_unsafe_def lstrip_c0_space_def is_ascii_alpha_def
      is_scheme_char_def is_ascii_digit_def lower_def ascii_lower_char_def Let_def)

lemma urlparse_scheme:
  assumes "startswith v ''http://'' \<or> startswith v ''https://''"
    and "urlparse lib v = Inr (sch, n)"
  shows "sch = ''http'' \<or> sch = ''https''"
proof -
  from assms(1) consider r where "v = ''http://'' @ r" | r where "v = ''https://'' @ r"
    using startswithD by blast
  then show ?thesis
  proof cases
    case 1
    with assms(2) split_scheme_http [of r] show ?thesis
      by (auto simp add: urlparse_def Let_def split: if_splits sum.splits)
  next
    case 2
    with assms(2) split_scheme_https [of r] show ?thesis
      by (auto simp add: urlparse_def Let_def split: if_splits sum.splits)
  qed
qed

lemma validate_url_Inr:
  assumes "validate_url lib url = Inr v"
  shows "v \<noteq> [] \<and> (startswith v ''http://'' \<or> startswith v ''https://'')
         \<and> (\<exists>n. urlparse_netloc lib v = Inr n \<and> n \<noteq> [])
         \<and> (v = url \<or> v = ''https://'' @ url)"
  using assms
  by (auto simp add: validate_url_def startswith_def Let_def split: if_splits sum.splits)

lemma remove_unsafe_only:
  assumes "list_all (\<lambda>c. c = CHR 0x09 \<or> c = CHR 0x0D \<or> c = CHR 0x0A) url"
  shows "remove_unsafe url = []"
  using assms by (induction url) (auto simp add: remove_unsafe_def)

lemma example_urlparse:
  "urlparse example_urllib ''https://example.com'' = Inr (''https'', ''example.com'')"
  by (simp add: urlparse_def lstrip_c0_space_def remove_unsafe_def split_scheme_def
      splitnetloc_def check_netloc_def is_ascii_alpha_def is_scheme_char_def
      is_ascii_digit_def is_ascii_def lower_def ascii_lower_char_def Let_def
      example_urllib_def)

lemma example_validate_url:
  "validate_url example_urllib ''example.com'' = Inr ''https://example.com''"
  using example_urlparse by (simp add: validate_url_def startswith_def urlparse_netloc_def)

text \<open>
  Claim C2, as the specification states it, fails on the input that is one space:
  \<open>if not url\<close> rejects the empty string only, the prefix is added, and \<open>urlparse\<close> finds the
  network location \<open>" "\<close>, which is not empty.
\<close>

theorem validate_url_space_counterexample:
  "validate_url example_urllib '' '' = Inr ''https:// ''"
  by (simp add: validate_url_def startswith_def urlparse_netloc_def urlparse_def
      lstrip_c0_space_def remove_unsafe_def split_scheme_def splitnetloc_def check_netloc_def
      is_ascii_alpha_def is_scheme_char_def is_ascii_digit_def is_ascii_def lower_def
      ascii_lower_char_def Let_def example_urllib_def)

text \<open>
  Claim C2, amended. \<open>validate_url\<close> fails with a \<open>ValueError\<close> on the empty string, and on
  every non-empty input made of tab, carriage return and line feed only (\<open>urlparse\<close> removes
  these characters, so no network location is left).
\<close>

theorem validate_url_rejects_empty:
  "validate_url lib [] = Inl (Exn ValueError ''URL cannot be empty'')
   \<and> (url \<noteq> [] \<and> list_all (\<lambda>c. c = CHR 0x09 \<or> c = CHR 0x0D \<or> c = CHR 0x0A) url \<longrightarrow>
        validate_url lib url = Inl (Exn ValueError (''Invalid URL: https://'' @ url)))"
proof (intro conjI impI)
  show "validate_url lib [] = Inl (Exn ValueError ''URL cannot be empty'')"
    by (simp add: validate_url_def)
next
  assume a: "url \<noteq> [] \<and> list_all (\<lambda>c. c = CHR 0x09 \<or> c = CHR 0x0D \<or> c = CHR 0x0A) url"
  then have nh: "\<not> startswith url ''http://''" "\<not> startswith url ''https://''"
    by (cases url; auto simp add: startswith_def)+
  have "urlparse lib (''https://'' @ url) = Inr (''https'', [])"
    using split_scheme_https [of url] remove_unsafe_only [of url] a
    by (simp add: urlparse_def Let_def splitnetloc_def check_netloc_def)
  with nh a show "validate_url lib url = Inl (Exn ValueError (''Invalid URL: https://'' @ url))"
    by (simp add: validate_url_def urlparse_netloc_def)
qed

theorem validate_url_rejects_empty_witness:
  "validate_url example_urllib [] = Inl (Exn ValueError ''URL cannot be empty'')
   \<and> validate_url example_urllib [CHR 0x09, CHR 0x0A] =
       Inl (Exn ValueError (''Invalid URL: https://'' @ [CHR 0x09, CHR 0x0A]))"
  using validate_url_rejects_empty [where lib = example_urllib and url = "[CHR 0x09, CHR 0x0A]"]
  by simp

text \<open>
  Claim C3, as the specification states it, promises a non-empty host component. On the
  input \<open>":80"\<close> the program returns \<open>"https://:80"\<close>: its network location \<open>":80"\<close> is not
  empty, which is all that \<open>validate_url\<close> tests, but it holds a port only. The library
  gives no host name for it, and the port stripping of \<open>check_ssl_certificate\<close> leaves the
  empty string.
\<close>

theorem validate_url_host_counterexample:
  "validate_url example_urllib '':80'' = Inr ''https://:80''
   \<and> urlparse_netloc example_urllib ''https://:80'' = Inr '':80''
   \<and> url_hostname '':80'' = None
   \<and> strip_port '':80'' = []"
  by (simp add: validate_url_def startswith_def url_eval url_hostname_def strip_port_def Let_def)

text \<open>
  Claim C3, amended. On a non-empty input that starts with neither \<open>http://\<close> nor
  \<open>https://\<close>, \<open>validate_url\<close> works on the input with \<open>https://\<close> put in front: it returns
  that string, or fails when \<open>urlparse\<close> fails on it or finds no network location. Every
  URL that \<open>validate_url\<close> returns is non-empty, starts with \<open>http://\<close> or \<open>https://\<close>, is
  parsed with the scheme \<open>http\<close> or \<open>https\<close>, and has a non-empty network location (which
  is what the program tests; the host inside it may be empty).
\<close>

theorem validate_url_prepends_https:
  "(url \<noteq> [] \<and> \<not> startswith url ''http://'' \<and> \<not> startswith url ''https://'' \<longrightarrow>
      validate_url lib url =
        (case urlparse_netloc lib (''https://'' @ url) of
           Inl e \<Rightarrow> Inl e
         | Inr n \<Rightarrow> if n = [] then Inl (Exn ValueError (''Invalid URL: https://'' @ url))
                    else Inr (''https://'' @ url)))
   \<and> (validate_url lib url = Inr v \<longrightarrow>
        v \<noteq> [] \<and> (startswith v ''http://'' \<or> startswith v ''https://'')
        \<and> (\<exists>sch n. urlparse lib v = Inr (sch, n) \<and> (sch = ''http'' \<or> sch = ''https'')
              \<and> n \<noteq> []))"
proof -
  have first: "validate_url lib url =
        (case urlparse_netloc lib (''https://'' @ url) of
           Inl e \<Rightarrow> Inl e
         | Inr n \<Rightarrow> if n = [] then Inl (Exn ValueError (''Invalid URL: https://'' @ url))
                    else Inr (''https://'' @ url))"
    if "url \<noteq> [] \<and> \<not> startswith url ''http://'' \<and> \<not> startswith url ''https://''"
    using that by (simp add: validate_url_def split: sum.splits)
  have second: "v \<noteq> [] \<and> (startswith v ''http://'' \<or> startswith v ''https://'')
        \<and> (\<exists>sch n. urlparse lib v = Inr (sch, n) \<and> (sch = ''http'' \<or> sch = ''https'')
              \<and> n \<noteq> [])"
    if r: "validate_url lib url = Inr v"
  proof -
    from validate_url_Inr [OF r] obtain n where
      v: "v \<noteq> []" "startswith v ''http://'' \<or> startswith v ''https://''"
      and n: "urlparse_netloc lib v = Inr n" "n \<noteq> []"
      by blast
    from n(1) obtain sch where p: "urlparse lib v = Inr (sch, n)"
      by (auto simp add: urlparse_netloc_def split: sum.splits)
    from urlparse_scheme [OF v(2) p] have "sch = ''http'' \<or> sch = ''https''" .
    with p n(2) v show ?thesis
      by blast
  qed
  from first second show ?thesis
    by blast
qed

theorem validate_url_prepends_https_witness:
  "validate_url example_urllib ''example.com'' = Inr ''https://example.com''
   \<and> startswith ''https://example.com'' ''https://''
   \<and> (\<exists>sch n. urlparse example_urllib ''https://example.com'' = Inr (sch, n)
         \<and> (sch = ''http'' \<or> sch = ''https'') \<and> n \<noteq> [])"
  using validate_url_prepends_https [where lib = example_urllib and url = "''example.com''"
      and v = "''https://example.com''"] example_validate_url
  by (simp add: startswith_def)

text \<open>
  Claim C10. \<open>validate_url\<close> is idempotent: a URL it returns already has the prefix and a
  network location, so it is returned unchanged when given again.
\<close>

theorem validate_url_idempotent:
  "validate_url lib url = Inr v \<Longrightarrow> validate_url lib v = Inr v"
  by (auto simp add: validate_url_def startswith_def Let_def split: if_splits sum.splits)

theorem validate_url_idempotent_witness:
  "validate_url example_urllib ''example.com'' = Inr ''https://example.com''
   \<and> validate_url example_urllib ''https://example.com'' = Inr ''https://example.com''"
  using validate_url_idempotent [OF example_validate_url] example_validate_url
  by simp

section \<open>Properties of the reachability probe\<close>

lemma check_site_status_unreachable:
  assumes "http_send w (length (events s))
             (http_request GET url (REQUEST_TIMEOUT CONFIG) browser_headers True)
           = Inl (Exn (RequestException k) msg)"
  shows "check_site_status w url s =
           (Inr (False, StatusText msg, [], None),
            s\<lparr>events := events s
               @ [Http (http_request GET url (REQUEST_TIMEOUT CONFIG) browser_headers True)]\<rparr>)"
  using assms
  by (simp add: check_site_status_def io_try_def io_bind_def time_time_io_def requests_get_def
      requests_send_def io_return_def)

lemma check_site_status_False:
  assumes "fst (check_site_status w url s) = Inr (False, st, hdrs, lt)"
  shows "\<exists>k msg. http_send w (length (events s))
                    (http_request GET url (REQUEST_TIMEOUT CONFIG) browser_headers True)
                  = Inl (Exn (RequestException k) msg)
                  \<and> st = StatusText msg \<and> hdrs = [] \<and> lt = None"
proof (cases "http_send w (length (events s))
                (http_request GET url (REQUEST_TIMEOUT CONFIG) browser_headers True)")
  case (Inr response)
  with assms show ?thesis
    by (simp add: check_site_status_def io_try_def io_bind_def time_time_io_def requests_get_def
        requests_send_def io_return_def)
next
  case (Inl e)
  obtain c m where e: "e = Exn c m" by (cases e)
  show ?thesis
  proof (cases "is_RequestException e")
    case True
    with e obtain k where "c = RequestException k" by (cases c) auto
    with e Inl assms check_site_status_unreachable [of w s url k m] show ?thesis
      by simp
  next
    case False
    with Inl assms show ?thesis
      by (simp add: check_site_status_def io_try_def io_bind_def time_time_io_def
          requests_get_def requests_send_def io_return_def)
  qed
qed

text \<open>
  Claim C7. The HTTP client raises a network-level failure (a DNS failure or a refused
  connection as \<open>ConnectionError\<close>, a timeout as \<open>Timeout\<close>, a failed TLS handshake as
  \<open>SSLError\<close>) as a subclass of \<open>RequestException\<close>. Whatever the subclass and the message,
  \<open>check_site_status\<close> then returns, as a value and not as an exception, \<open>reachable\<close> false,
  the message of the exception in place of the status, empty headers and no load time.
\<close>

theorem check_site_status_network_failure:
  assumes "http_send w (length (events s))
             (http_request GET url (REQUEST_TIMEOUT CONFIG) browser_headers True)
           = Inl (Exn (RequestException k) msg)"
  shows "check_site_status w url s =
           (Inr (False, StatusText msg, [], None),
            s\<lparr>events := events s
               @ [Http (http_request GET url (REQUEST_TIMEOUT CONFIG) browser_headers True)]\<rparr>)"
  using assms by (rule check_site_status_unreachable)

theorem check_site_status_network_failure_witness:
  "check_site_status example_world_down ''https://example.com'' example_state =
     (Inr (False, StatusText ''Connection refused'', [], None),
      example_state\<lparr>events := events example_state
         @ [Http (http_request GET ''https://example.com'' (REQUEST_TIMEOUT CONFIG)
                    browser_headers True)]\<rparr>)"
  using check_site_status_network_failure [where w = example_world_down
      and s = example_state and url = "''https://example.com''" and k = ConnectionError
      and msg = "''Connection refused''"]
  by (simp add: example_world_down_def)

section \<open>Properties of the certificate probe\<close>

text \<open>
  Claim C8. Let an exception \<open>e\<close> of a class derived from \<open>Exception\<close> (address resolution
  failure, timeout, TLS error or any other) be raised at any point of the probe: by
  \<open>urlparse\<close>, by the connection and handshake, by the lookup of \<open>notAfter\<close> in the
  certificate, or by the parsing of the date. Then \<open>check_ssl_certificate\<close> returns
  \<open>(False, None)\<close> as a value: the exception does not leave the probe.
\<close>

theorem check_ssl_certificate_failure:
  assumes "is_Exception e"
    and "urlparse_netloc (url_lib w) url = Inl e
         \<or> (\<exists>netloc. urlparse_netloc (url_lib w) url = Inr netloc
              \<and> (tls_getpeercert w (length (events s)) (strip_port netloc) 443
                    (REQUEST_TIMEOUT CONFIG) = Inl e
                 \<or> (\<exists>cert. tls_getpeercert w (length (events s)) (strip_port netloc) 443
                              (REQUEST_TIMEOUT CONFIG) = Inr (Some cert)
                      \<and> cert \<noteq> []
                      \<and> (dict_get cert ''notAfter'' = Inl e
                          \<or> (\<exists>expires_str. dict_get cert ''notAfter'' = Inr expires_str
                                \<and> strptime w expires_str = Inl e)))))"
  shows "fst (check_ssl_certificate w url s) = Inr (False, None)"
  using assms
  by (cases e; auto simp add: check_ssl_certificate_def io_try_def io_bind_def io_lift_def
      getpeercert_io_def io_return_def utcnow_io_def Let_def
      split: sum.splits if_splits prod.splits)

theorem check_ssl_certificate_failure_witness:
  "is_Exception (Exn SocketGaierror ''Name or service not known'')
   \<and> urlparse_netloc (url_lib example_world_down) ''https://example.com'' = Inr ''example.com''
   \<and> tls_getpeercert example_world_down (length (events example_state))
        (strip_port ''example.com'') 443 (REQUEST_TIMEOUT CONFIG)
      = Inl (Exn SocketGaierror ''Name or service not known'')
   \<and> fst (check_ssl_certificate example_world_down ''https://example.com'' example_state)
      = Inr (False, None)"
  using check_ssl_certificate_failure [where w = example_world_down and s = example_state
      and url = "''https://example.com''"
      and e = "Exn SocketGaierror ''Name or service not known''"]
    example_urlparse
  by (simp add: example_world_down_def urlparse_netloc_def)

section \<open>Properties of the responsiveness probe\<close>

lemma check_mobile_responsiveness_except:
  assumes "is_Exception e"
    and "http_send w (length (events s))
           (http_request GET url (REQUEST_TIMEOUT CONFIG) mobile_headers True) = Inl e
         \<or> (\<exists>response. http_send w (length (events s))
                (http_request GET url (REQUEST_TIMEOUT CONFIG) mobile_headers True)
              = Inr response
               \<and> html_parser w (resp_text response) = Inl e)"
  shows "check_mobile_responsiveness w url s =
           (Inr (False, [''Error checking responsiveness'']),
            s\<lparr>events := events s
               @ [Http (http_request GET url (REQUEST_TIMEOUT CONFIG) mobile_headers True)]\<rparr>)"
  using assms
  by (auto simp add: check_mobile_responsiveness_def io_try_def io_bind_def io_lift_def
      requests_get_def requests_send_def io_return_def Let_def
      split: sum.splits if_splits prod.splits)

lemma example_mobile_down:
  "check_mobile_responsiveness example_world_down ''https://example.com'' example_state =
     (Inr (False, [''Error checking responsiveness'']),
      example_state\<lparr>events := events example_state
         @ [Http (http_request GET ''https://example.com'' (REQUEST_TIMEOUT CONFIG)
                    mobile_headers True)]\<rparr>)"
  by (rule check_mobile_responsiveness_except
        [where e = "Exn (RequestException ConnectionError) ''Connection refused''"])
     (simp_all add: example_world_down_def)

text \<open>
  Claim C6, as the specification states it, gives the signal as
  \<open>"error checking responsiveness"\<close>. When the fetch fails the program returns the string
  \<open>"Error checking responsiveness"\<close>, with a capital letter.
\<close>

theorem check_mobile_responsiveness_counterexample:
  "fst (check_mobile_responsiveness example_world_down ''https://example.com'' example_state)
     \<noteq> Inr (False, [''error checking responsiveness''])"
  by (simp add: example_mobile_down)

text \<open>
  Claim C6, amended. When the fetch or the parser raises an exception of a class derived
  from \<open>Exception\<close>, \<open>check_mobile_responsiveness\<close> returns, as a value, \<open>responsive\<close> false with
  the one signal \<open>"Error checking responsiveness"\<close>.
\<close>

theorem check_mobile_responsiveness_failure:
  assumes "is_Exception e"
    and "http_send w (length (events s))
           (http_request GET url (REQUEST_TIMEOUT CONFIG) mobile_headers True) = Inl e
         \<or> (\<exists>response. http_send w (length (events s))
                (http_request GET url (REQUEST_TIMEOUT CONFIG) mobile_headers True)
              = Inr response
               \<and> html_parser w (resp_text response) = Inl e)"
  shows "check_mobile_responsiveness w url s =
           (Inr (False, [''Error checking responsiveness'']),
            s\<lparr>events := events s
               @ [Http (http_request GET url (REQUEST_TIMEOUT CONFIG) mobile_headers True)]\<rparr>)"
  using assms by (rule check_mobile_responsiveness_except)

theorem check_mobile_responsiveness_failure_witness:
  "is_Exception (Exn OtherException ''parser failure'')
   \<and> html_parser example_world_down ''<html>'' = Inl (Exn OtherException ''parser failure'')
   \<and> check_mobile_responsiveness
        (example_world_down\<lparr>http_send := example_http\<rparr>) ''https://example.com'' example_state =
       (Inr (False, [''Error checking responsiveness'']),
        example_state\<lparr>events := events example_state
           @ [Http (http_request GET ''https://example.com'' (REQUEST_TIMEOUT CONFIG)
                      mobile_headers True)]\<rparr>)"
  using check_mobile_responsiveness_failure
      [where w = "example_world_down\<lparr>http_send := example_http\<rparr>" and s = example_state
        and url = "''https://example.com''" and e = "Exn OtherException ''parser failure''"]
  by (simp add: example_world_down_def example_http_def http_request_def)

section \<open>Properties of the link integrity probe\<close>

lemma head_urls_append: "head_urls (xs @ ys) = head_urls xs @ head_urls ys"
  by (induction xs rule: head_urls.induct) auto

lemma head_urls_head_requests: "head_urls (map (\<lambda>l. Http (head_request l)) ls) = ls"
  by (induction ls) (auto simp add: head_request_def http_request_def)

lemma same_domain_link_Cons:
  "same_domain_link lib url hrefs l \<Longrightarrow> same_domain_link lib url (h # hrefs) l"
  by (auto simp add: same_domain_link_def)

lemma collect_links_spec:
  assumes "collect_links lib url hrefs links0 = Inr links" and "distinct links0"
  shows "distinct links \<and> (\<forall>l \<in> set links. l \<in> set links0 \<or> same_domain_link lib url hrefs l)"
  using assms
proof (induction hrefs arbitrary: links0)
  case Nil
  then show ?case by simp
next
  case (Cons href hrefs)
  show ?case
  proof (cases "\<not> startswith href ''#'' \<and> \<not> startswith href ''javascript:''")
    case False
    with Cons.prems have "collect_links lib url hrefs links0 = Inr links" by auto
    from Cons.IH [OF this Cons.prems(2)] show ?thesis
      by (auto intro: same_domain_link_Cons)
  next
    case True
    with Cons.prems(1) obtain full_url n1 n2 where
      j: "urljoin lib url href = Inr full_url"
      and n1: "urlparse_netloc lib full_url = Inr n1"
      and n2: "urlparse_netloc lib url = Inr n2"
      and rest: "collect_links lib url hrefs (if n1 = n2 then set_add links0 full_url else links0) = Inr links"
      by (auto split: sum.splits if_splits)
    have d: "distinct (if n1 = n2 then set_add links0 full_url else links0)"
      using Cons.prems(2) by (simp add: set_add_def)
    from Cons.IH [OF rest d] have
      ih: "distinct links"
        "\<forall>l\<in>set links. l \<in> set (if n1 = n2 then set_add links0 full_url else links0)
              \<or> same_domain_link lib url hrefs l"
      by blast+
    have new: "same_domain_link lib url (href # hrefs) full_url" if "n1 = n2"
      using True j n1 n2 that by (simp add: same_domain_link_def)
    show ?thesis
    proof (intro conjI ballI)
      show "distinct links" by (rule ih(1))
    next
      fix l assume "l \<in> set links"
      with ih(2) have "l \<in> set (if n1 = n2 then set_add links0 full_url else links0)
              \<or> same_domain_link lib url hrefs l" by blast
      then show "l \<in> set links0 \<or> same_domain_link lib url (href # hrefs) l"
        using new by (auto simp add: set_add_def intro: same_domain_link_Cons split: if_splits)
    qed
  qed
qed

lemma check_links_spec:
  assumes "check_links w links broken s = ((eo, broken'), s')"
  shows "\<exists>k. k \<le> length links
           \<and> s' = s\<lparr>events := events s @ map (\<lambda>l. Http (head_request l)) (take k links)\<rparr>
           \<and> length broken' \<le> length broken + k
           \<and> (\<forall>b \<in> set broken'. b \<in> set broken \<or> (\<exists>l \<in> set (take k links). reported l b))
           \<and> (eo = None \<longrightarrow> k = length links)"
  using assms
proof (induction links arbitrary: broken s)
  case Nil
  then show ?case by auto
next
  case (Cons link links)
  let ?s1 = "s\<lparr>events := events s @ [Http (head_request link)]\<rparr>"
  have step: "requests_head w link (HEAD_REQUEST_TIMEOUT CONFIG) link_headers True s
                = (http_send w (length (events s)) (head_request link), ?s1)"
    by (simp add: requests_head_def requests_send_def head_request_def)
  show ?case
  proof (cases "http_send w (length (events s)) (head_request link)")
    case (Inl e)
    show ?thesis
    proof (cases "is_RequestException e")
      case True
      with Inl step Cons.prems have
        "check_links w links (broken @ [link @ '' (Error: Connection failed)'']) ?s1 = ((eo, broken'), s')"
        by simp
      from Cons.IH [OF this] obtain k where k: "k \<le> length links"
        "s' = ?s1\<lparr>events := events ?s1 @ map (\<lambda>l. Http (head_request l)) (take k links)\<rparr>"
        "length broken' \<le> length (broken @ [link @ '' (Error: Connection failed)'']) + k"
        "\<forall>b \<in> set broken'. b \<in> set (broken @ [link @ '' (Error: Connection failed)''])
             \<or> (\<exists>l \<in> set (take k links). reported l b)"
        "eo = None \<longrightarrow> k = length links"
        by blast
      have "\<forall>b \<in> set broken'. b \<in> set broken \<or> (\<exists>l \<in> set (take (Suc k) (link # links)). reported l b)"
        using k(4) by (auto simp add: reported_def)
      with k show ?thesis
        by (intro exI [of _ "Suc k"]) simp
    next
      case False
      with Inl step Cons.prems have "eo = Some e" "broken' = broken" "s' = ?s1"
        by simp_all
      then show ?thesis
        by (intro exI [of _ "Suc 0"]) simp
    qed
  next
    case (Inr resp)
    show ?thesis
    proof (cases "400 \<le> status_code resp")
      case True
      let ?b = "link @ '' (Status: '' @ str_int (status_code resp) @ '')''"
      from True Inr step Cons.prems have
        "check_links w links (broken @ [?b]) ?s1 = ((eo, broken'), s')"
        by simp
      from Cons.IH [OF this] obtain k where k: "k \<le> length links"
        "s' = ?s1\<lparr>events := events ?s1 @ map (\<lambda>l. Http (head_request l)) (take k links)\<rparr>"
        "length broken' \<le> length (broken @ [?b]) + k"
        "\<forall>b \<in> set broken'. b \<in> set (broken @ [?b])
             \<or> (\<exists>l \<in> set (take k links). reported l b)"
        "eo = None \<longrightarrow> k = length links"
        by blast
      have "reported link ?b"
        using True by (auto simp add: reported_def)
      then have "\<forall>b \<in> set broken'. b \<in> set broken \<or> (\<exists>l \<in> set (take (Suc k) (link # links)). reported l b)"
        using k(4) by auto
      with k show ?thesis
        by (intro exI [of _ "Suc k"]) simp
    next
      case False
      with Inr step Cons.prems have
        "check_links w links broken ?s1 = ((eo, broken'), s')"
        by simp
      from Cons.IH [OF this] obtain k where k: "k \<le> length links"
        "s' = ?s1\<lparr>events := events ?s1 @ map (\<lambda>l. Http (head_request l)) (take k links)\<rparr>"
        "length broken' \<le> length broken + k"
        "\<forall>b \<in> set broken'. b \<in> set broken \<or> (\<exists>l \<in> set (take k links). reported l b)"
        "eo = None \<longrightarrow> k = length links"
        by blast
      have "\<forall>b \<in> set broken'. b \<in> set broken \<or> (\<exists>l \<in> set (take (Suc k) (link # links)). reported l b)"
        using k(4) by auto
      with k show ?thesis
        by (intro exI [of _ "Suc k"]) simp
    qed
  qed
qed


lemma list_of_set_props:
  "set (list_of_set w ls) = set ls" "distinct (list_of_set w ls) = distinct ls"
  by (simp_all add: list_of_set_def)

lemma page_links_spec:
  "distinct (page_links w url s)
   \<and> (\<forall>l \<in> set (page_links w url s). same_domain_link (url_lib w) url (page_hrefs w url s) l)"
proof (cases "collect_links (url_lib w) url (page_hrefs w url s) []")
  case (Inl e)
  then show ?thesis by (simp add: page_links_def)
next
  case (Inr links)
  from collect_links_spec [OF Inr] Inr show ?thesis
    by (simp add: page_links_def)
qed

lemma except_return_broken_cases:
  assumes "except_return_broken e [] s1 = (r, s')"
  shows "s' = s1 \<and> (r = Inr [] \<or> r = Inl e)"
  using assms by (cases "is_Exception e") (simp_all add: except_return_broken_def)

lemma find_broken_links_spec:
  assumes "find_broken_links w url s = (r, s')"
  shows "\<exists>k. k \<le> length (take (MAX_LINKS_TO_CHECK CONFIG) (list_of_set w (page_links w url s)))
           \<and> s' = s\<lparr>events := events s @ Http (link_get_request url)
                      # map (\<lambda>l. Http (head_request l))
                          (take k (take (MAX_LINKS_TO_CHECK CONFIG)
                             (list_of_set w (page_links w url s))))\<rparr>
           \<and> (\<forall>out. r = Inr out \<longrightarrow>
                 length out \<le> k
                 \<and> (\<forall>b \<in> set out.
                       \<exists>l \<in> set (take k (take (MAX_LINKS_TO_CHECK CONFIG)
                                     (list_of_set w (page_links w url s)))). reported l b))"
proof -
  let ?s1 = "s\<lparr>events := events s @ [Http (link_get_request url)]\<rparr>"
  have get: "requests_get w url (REQUEST_TIMEOUT CONFIG) link_headers True s
               = (http_send w (length (events s)) (link_get_request url), ?s1)"
    by (simp add: requests_get_def requests_send_def link_get_request_def)
  have trivial: ?thesis if "s' = ?s1 \<and> (r = Inr [] \<or> r = Inl e)" for e
    using that by (intro exI [of _ 0]) auto
  show ?thesis
  proof (cases "http_send w (length (events s)) (link_get_request url)")
    case (Inl e)
    with get have "find_broken_links w url s = except_return_broken e [] ?s1"
      by (simp add: find_broken_links_def)
    with assms have "except_return_broken e [] ?s1 = (r, s')" by simp
    from except_return_broken_cases [OF this] show ?thesis by (rule trivial)
  next
    case (Inr response)
    note resp = Inr
    show ?thesis
    proof (cases "resp_ok response")
      case False
      with get resp have "find_broken_links w url s = (Inr [], ?s1)"
        by (simp add: find_broken_links_def)
      with assms have "s' = ?s1 \<and> (r = Inr [] \<or> r = Inl undefined)" by simp
      then show ?thesis by (rule trivial)
    next
      case True
      note ok = True
      show ?thesis
      proof (cases "html_parser w (resp_text response)")
        case (Inl e)
        with get resp ok have "find_broken_links w url s = except_return_broken e [] ?s1"
          by (simp add: find_broken_links_def)
        with assms have "except_return_broken e [] ?s1 = (r, s')" by simp
        from except_return_broken_cases [OF this] show ?thesis by (rule trivial)
      next
        case (Inr soup)
        note parsed = Inr
        have hrefs: "page_hrefs w url s = a_hrefs soup"
          using resp ok parsed by (simp add: page_hrefs_def)
        show ?thesis
        proof (cases "collect_links (url_lib w) url (a_hrefs soup) []")
          case (Inl e)
          with get resp ok parsed have
            "find_broken_links w url s = except_return_broken e [] ?s1"
            by (simp add: find_broken_links_def)
          with assms have "except_return_broken e [] ?s1 = (r, s')" by simp
          from except_return_broken_cases [OF this] show ?thesis by (rule trivial)
        next
          case (Inr links)
          have links: "page_links w url s = links"
            using hrefs Inr by (simp add: page_links_def)
          let ?check = "take (MAX_LINKS_TO_CHECK CONFIG) (list_of_set w links)"
          obtain eo broken' s2 where cl: "check_links w ?check [] ?s1 = ((eo, broken'), s2)"
            by (metis surj_pair)
          have unfolded: "find_broken_links w url s =
              (case eo of None \<Rightarrow> (Inr broken', s2)
               | Some e \<Rightarrow> except_return_broken e broken' s2)"
            using get resp ok parsed Inr cl
            by (simp add: find_broken_links_def Let_def split: option.splits)
          have fin: "s' = s2 \<and> (r = Inr broken' \<or> (\<exists>e. r = Inl e))"
          proof (cases eo)
            case None
            with unfolded assms show ?thesis by simp
          next
            case (Some e)
            with unfolded assms have "except_return_broken e broken' s2 = (r, s')" by simp
            then show ?thesis
              by (cases "is_Exception e") (auto simp add: except_return_broken_def)
          qed
          from check_links_spec [OF cl] obtain k where k: "k \<le> length ?check"
            "s2 = ?s1\<lparr>events := events ?s1 @ map (\<lambda>l. Http (head_request l)) (take k ?check)\<rparr>"
            "length broken' \<le> length ([]::string list) + k"
            "\<forall>b \<in> set broken'. b \<in> set [] \<or> (\<exists>l \<in> set (take k ?check). reported l b)"
            by blast
          show ?thesis
            using fin k links by (intro exI [of _ k]) auto
        qed
      qed
    qed
  qed
qed

lemma find_broken_links_heads:
  assumes "find_broken_links w url s = (r, s')"
  shows "\<exists>k. head_urls (new_events s s')
              = take k (take (MAX_LINKS_TO_CHECK CONFIG) (list_of_set w (page_links w url s)))
           \<and> (\<forall>out. r = Inr out \<longrightarrow>
                 length out \<le> length (head_urls (new_events s s'))
                 \<and> (\<forall>b \<in> set out. \<exists>l \<in> set (head_urls (new_events s s')). reported l b))"
proof -
  let ?c = "take (MAX_LINKS_TO_CHECK CONFIG) (list_of_set w (page_links w url s))"
  from find_broken_links_spec [OF assms] obtain k where
    le: "k \<le> length ?c"
    and k: "s' = s\<lparr>events := events s @ Http (link_get_request url)
                      # map (\<lambda>l. Http (head_request l)) (take k ?c)\<rparr>"
    and out: "\<forall>out. r = Inr out \<longrightarrow>
                 length out \<le> k \<and> (\<forall>b \<in> set out. \<exists>l \<in> set (take k ?c). reported l b)"
    by blast
  have h: "head_urls (new_events s s') = take k ?c"
    using k by (simp add: new_events_def head_urls_head_requests link_get_request_def
        http_request_def)
  have len: "length (take k ?c) = k"
    using le by simp
  have "\<forall>out. r = Inr out \<longrightarrow>
          length out \<le> length (head_urls (new_events s s'))
          \<and> (\<forall>b \<in> set out. \<exists>l \<in> set (head_urls (new_events s s')). reported l b)"
    unfolding h len using out by blast
  with h show ?thesis
    by blast
qed

lemma max_links: "MAX_LINKS_TO_CHECK CONFIG = 20"
  by (simp add: CONFIG_def)

text \<open>
  Claim C4. Whatever the page, \<open>find_broken_links\<close> returns at most \<open>MAX_LINKS_TO_CHECK\<close>,
  that is 20, entries. The ceiling is applied after deduplication: the links collected
  from the page are pairwise different, the links checked by a \<open>HEAD\<close> request are the
  first ones of the first 20 of an enumeration of that set, so they are at most 20 and
  pairwise different, and there are at most as many entries as links checked.
\<close>

theorem find_broken_links_ceiling:
  assumes "find_broken_links w url s = (r, s')"
  shows "MAX_LINKS_TO_CHECK CONFIG = 20
         \<and> (\<forall>out. r = Inr out \<longrightarrow>
               length out \<le> 20 \<and> length out \<le> length (head_urls (new_events s s')))
         \<and> distinct (page_links w url s)
         \<and> (\<exists>k. head_urls (new_events s s')
                  = take k (take 20 (list_of_set w (page_links w url s))))
         \<and> length (head_urls (new_events s s')) \<le> 20
         \<and> distinct (head_urls (new_events s s'))"
proof -
  from find_broken_links_heads [OF assms] obtain k where
    h: "head_urls (new_events s s') = take k (take 20 (list_of_set w (page_links w url s)))"
    and out: "\<forall>out. r = Inr out \<longrightarrow> length out \<le> length (head_urls (new_events s s'))"
    unfolding max_links by blast
  have d: "distinct (page_links w url s)"
    using page_links_spec by blast
  then have dh: "distinct (head_urls (new_events s s'))"
    unfolding h by (simp add: list_of_set_props)
  have len: "length (head_urls (new_events s s')) \<le> 20"
    unfolding h by simp
  from out len have "\<forall>out. r = Inr out \<longrightarrow>
      length out \<le> 20 \<and> length out \<le> length (head_urls (new_events s s'))"
    by fastforce
  with h d dh len max_links show ?thesis
    by blast
qed

lemma example_up_links:
  "find_broken_links example_world_up ''https://example.com'' example_state =
     (Inr [''https://example.com/b (Status: 404)'',
           ''https://example.com/c (Error: Connection failed)''],
      example_state\<lparr>events := [Http (link_get_request ''https://example.com''),
                                 Http (head_request ''https://example.com/a''),
                                 Http (head_request ''https://example.com/b''),
                                 Http (head_request ''https://example.com/c'')]\<rparr>)"
  by (simp add: find_broken_links_def requests_get_def requests_send_def requests_head_def
      http_request_def example_world_up_def example_http_def resp_ok_def example_page_def
      startswith_def set_add_def list_of_set_def CONFIG_def str_int_def str_nat.simps
      digit_char_def example_state_def except_return_broken_def link_get_request_def
      head_request_def url_eval Let_def)

theorem find_broken_links_ceiling_witness:
  "(\<exists>out. fst (find_broken_links example_world_up ''https://example.com'' example_state)
            = Inr out \<and> length out = 2)
   \<and> length (page_hrefs example_world_up ''https://example.com'' example_state) = 7
   \<and> length (head_urls (new_events example_state
        (snd (find_broken_links example_world_up ''https://example.com'' example_state))))
      = 3"
  using find_broken_links_ceiling [where w = example_world_up and s = example_state
      and url = "''https://example.com''", OF prod.collapse [symmetric]]
    example_up_links
  by (simp add: new_events_def example_state_def head_request_def link_get_request_def
      http_request_def page_hrefs_def example_world_up_def example_http_def resp_ok_def
      example_page_def)

text \<open>
  Claim C5. Every link that \<open>find_broken_links\<close> checks by a \<open>HEAD\<close> request is the
  resolution \<open>urljoin(url, href)\<close> of an \<open>href\<close> of the page that starts with neither \<open>#\<close> nor
  \<open>javascript:\<close>, and its network location is equal to that of the page. Every entry of the
  result reports such a link.
\<close>

theorem find_broken_links_same_domain:
  assumes "find_broken_links w url s = (r, s')"
  shows "(\<forall>l \<in> set (head_urls (new_events s s')).
            same_domain_link (url_lib w) url (page_hrefs w url s) l)
         \<and> (\<forall>out. r = Inr out \<longrightarrow>
               (\<forall>b \<in> set out. \<exists>l. same_domain_link (url_lib w) url (page_hrefs w url s) l
                                  \<and> reported l b))"
proof -
  from find_broken_links_heads [OF assms] obtain k where
    h: "head_urls (new_events s s')
          = take k (take (MAX_LINKS_TO_CHECK CONFIG) (list_of_set w (page_links w url s)))"
    and out: "\<forall>out. r = Inr out \<longrightarrow>
                (\<forall>b \<in> set out. \<exists>l \<in> set (head_urls (new_events s s')). reported l b)"
    by blast
  have sub: "set (head_urls (new_events s s')) \<subseteq> set (page_links w url s)"
  proof
    fix l assume "l \<in> set (head_urls (new_events s s'))"
    then have "l \<in> set (list_of_set w (page_links w url s))"
      unfolding h by (blast dest: in_set_takeD)
    then show "l \<in> set (page_links w url s)"
      by (simp add: list_of_set_props)
  qed
  have all: "\<forall>l \<in> set (head_urls (new_events s s')).
              same_domain_link (url_lib w) url (page_hrefs w url s) l"
    using sub page_links_spec by blast
  with out show ?thesis
    by blast
qed

theorem find_broken_links_same_domain_witness:
  "fst (find_broken_links example_world_up ''https://example.com'' example_state) =
     Inr [''https://example.com/b (Status: 404)'',
          ''https://example.com/c (Error: Connection failed)'']
   \<and> head_urls (new_events example_state
        (snd (find_broken_links example_world_up ''https://example.com'' example_state)))
      = [''https://example.com/a'', ''https://example.com/b'', ''https://example.com/c'']
   \<and> ''https://other.org/x''
        \<in> set (page_hrefs example_world_up ''https://example.com'' example_state)
   \<and> same_domain_link (url_lib example_world_up) ''https://example.com''
        (page_hrefs example_world_up ''https://example.com'' example_state)
        ''https://example.com/a''"
  using find_broken_links_same_domain [where w = example_world_up and s = example_state
      and url = "''https://example.com''", OF prod.collapse [symmetric]]
    example_up_links
  by (simp add: new_events_def example_state_def head_request_def link_get_request_def
      http_request_def page_hrefs_def example_world_up_def example_http_def resp_ok_def
      example_page_def)

section \<open>Properties of the orchestrator\<close>

lemma default_suggestions:
  "generate_suggestions False None [] (False, [''Site not reachable'']) None =
     [''Install a valid SSL certificate using Let's Encrypt or a trusted CA'',
      ''Improve mobile responsiveness by adding a viewport meta tag'',
      ''Consider using responsive frameworks like Bootstrap or Tailwind CSS'']"
  by (simp add: generate_suggestions_def)

text \<open>
  Claim C9. Let the URL be valid and let the reachability probe report \<open>reachable\<close> false.
  Then \<open>run_website_test\<close> ends normally. The only network operation it makes is the \<open>GET\<close>
  request of the reachability probe: no TLS connection, no \<open>HEAD\<close> request and no other
  \<open>GET\<close> request is logged, and none of the lines that announce the three other probes is
  printed. The dictionary \<open>results\<close> holds the defaults (certificate invalid with no expiry,
  no broken links, not responsive with the signal \<open>"Site not reachable"\<close>), and the
  synthesizer runs on them: it gives the certificate suggestion and the two responsiveness
  suggestions, which are printed.
\<close>

theorem run_website_test_unreachable:
  assumes v: "validate_url (url_lib w) url0 = Inr url"
    and f: "fst (check_site_status w url s) = Inr (False, st, hdrs, lt)"
  shows "run_website_test w url0 s =
           (Inr (Some \<lparr> r_status = Some (False, st, [], None),
                         r_ssl = Some (False, None),
                         r_broken_links = Some [],
                         r_mobile = Some (False, [''Site not reachable'']),
                         r_suggestions =
                           Some [''Install a valid SSL certificate using Let's Encrypt or a trusted CA'',
                                 ''Improve mobile responsiveness by adding a viewport meta tag'',
                                 ''Consider using responsive frameworks like Bootstrap or Tailwind CSS''] \<rparr>),
            s\<lparr> events := events s
                   @ [Http (http_request GET url (REQUEST_TIMEOUT CONFIG) browser_headers True)],
                stdout := stdout s @ unreachable_lines url (str_status st) \<rparr>)"
proof -
  from check_site_status_False [OF f] obtain k msg where
    h: "http_send w (length (events s))
          (http_request GET url (REQUEST_TIMEOUT CONFIG) browser_headers True)
        = Inl (Exn (RequestException k) msg)"
    and st: "st = StatusText msg" by blast
  let ?s1 = "s\<lparr>stdout := (stdout s @ [NL @ BAR_CHART @ '' Starting health check for '' @ url @ ''...'' @ NL])
                  @ [HOURGLASS @ '' Checking site status...'']\<rparr>"
  have c: "check_site_status w url ?s1 =
           (Inr (False, StatusText msg, [], None),
            ?s1\<lparr>events := events ?s1
               @ [Http (http_request GET url (REQUEST_TIMEOUT CONFIG) browser_headers True)]\<rparr>)"
    by (rule check_site_status_unreachable) (simp add: h)
  show ?thesis
    using v c st
    by (simp add: run_website_test_def io_try_def io_bind_def io_lift_def print_def
        io_return_def report_status_def finish_report_def results_item_def empty_results_def
        default_suggestions unreachable_lines_def Let_def)
qed

theorem run_website_test_unreachable_witness:
  "run_website_test example_world_down ''example.com'' example_state =
     (Inr (Some \<lparr> r_status = Some (False, StatusText ''Connection refused'', [], None),
                   r_ssl = Some (False, None),
                   r_broken_links = Some [],
                   r_mobile = Some (False, [''Site not reachable'']),
                   r_suggestions =
                     Some [''Install a valid SSL certificate using Let's Encrypt or a trusted CA'',
                           ''Improve mobile responsiveness by adding a viewport meta tag'',
                           ''Consider using responsive frameworks like Bootstrap or Tailwind CSS''] \<rparr>),
      \<lparr> events = [Http (http_request GET ''https://example.com'' (REQUEST_TIMEOUT CONFIG)
                          browser_headers True)],
        stdout = unreachable_lines ''https://example.com'' ''Connection refused'' \<rparr>)"
proof -
  have v: "validate_url (url_lib example_world_down) ''example.com'' = Inr ''https://example.com''"
    using example_validate_url by (simp add: example_world_down_def)
  have f: "fst (check_site_status example_world_down ''https://example.com'' example_state)
             = Inr (False, StatusText ''Connection refused'', [], None)"
    by (subst check_site_status_unreachable
          [where k = ConnectionError and msg = "''Connection refused''"])
       (simp_all add: example_world_down_def)
  from run_website_test_unreachable [OF v f] show ?thesis
    by (simp add: example_state_def)
qed

end
